theory Spec2Isabelle
  imports Main "HOL-Library.Word"
begin

unbundle bit_operations_syntax

text \<open>
  A model of the CAPI-to-Argo cluster reconciler: the naming functions, the TLS validator
  and the cluster type of \<open>controllers/argo_cluster.go\<close>, and the \<open>Reconcile\<close> method
  in its two revisions, one building every HTTP request inline and one going through
  \<open>sendRequest\<close>. Package-level variables are a \<open>config\<close> record; everything a cycle
  calls outside these files is a field of an \<open>env\<close> record; a cycle returns its outcome
  together with the requests and log lines it produced, in order.
\<close>

section \<open>Data model (controllers/argo\_cluster.go)\<close>

type_synonym byte = "8 word"

text \<open>
  Go error values. \<open>ErrorsNew\<close> is \<open>errors.New\<close>; \<open>CorruptInputError\<close> is the error of
  \<open>encoding/base64\<close> (the byte offset it carries is not modelled);
  \<open>SyntaxError\<close> is the error of \<open>encoding/json\<close>; \<open>Opaque\<close> stands for an error
  made outside the modelled files (Kubernetes client, secret parsing, \<open>net/url\<close>,
  \<open>net/http\<close>, \<open>io\<close>).
\<close>

datatype error =
    ErrorsNew string
  | CorruptInputError
  | SyntaxError string
  | Opaque string

text \<open>The package-level variables, passed explicitly.\<close>

record config =
  ArgoNamespace :: string
  ArgoEndpoint :: string
  authToken :: string
  EnableGarbageCollection :: bool
  EnableNamespacedNames :: bool

record NamespacedName =
  Namespace :: string
  Name :: string

record ArgoTLS =
  CaData :: string
  CertData :: string
  KeyData :: string

record ArgoConfig =
  TLSClientConfig :: ArgoTLS

record ArgoCluster =
  NamespacedName :: NamespacedName
  ClusterName :: string
  ClusterServer :: string
  ClusterLabels :: "string \<rightharpoonup> string"
  ClusterConfig :: ArgoConfig

record ClusterList =
  Clusters :: "ArgoCluster list"

section \<open>Standard base64 (\<open>b64.StdEncoding\<close>)\<close>

definition encodeStd :: string where
  "encodeStd = ''ABCDEFGHIJKLMNOPQRSTUVWXYZabcdefghijklmnopqrstuvwxyz0123456789+/''"

definition padChar :: char where
  "padChar = CHR ''=''"

definition is_newline :: "char \<Rightarrow> bool" where
  "is_newline c = (c = CHR 0x0A \<or> c = CHR 0x0D)"

fun index_from :: "char \<Rightarrow> string \<Rightarrow> nat \<Rightarrow> nat option" where
  "index_from c [] i = None"
| "index_from c (x # xs) i = (if x = c then Some i else index_from c xs (Suc i))"

text \<open>\<open>decodeMap\<close>: the position of a character in the alphabet; \<open>None\<close> is Go's \<open>0xff\<close>.\<close>

definition decodeMap :: "char \<Rightarrow> byte option" where
  "decodeMap c = map_option of_nat (index_from c encodeStd 0)"

definition encode :: "32 word \<Rightarrow> char" where
  "encode v = encodeStd ! unat v"

text \<open>
  \<open>EncodeToString\<close>: three bytes become four characters; a last block of one or two
  bytes is padded with \<open>=\<close>.
\<close>

fun EncodeToString :: "byte list \<Rightarrow> string" where
  "EncodeToString [] = []"
| "EncodeToString [b0] =
     (let val = push_bit 16 (ucast b0 :: 32 word)
      in [encode (drop_bit 18 val AND 0x3F), encode (drop_bit 12 val AND 0x3F),
          padChar, padChar])"
| "EncodeToString [b0, b1] =
     (let val = push_bit 16 (ucast b0 :: 32 word) OR push_bit 8 (ucast b1)
      in [encode (drop_bit 18 val AND 0x3F), encode (drop_bit 12 val AND 0x3F),
          encode (drop_bit 6 val AND 0x3F), padChar])"
| "EncodeToString (b0 # b1 # b2 # bs) =
     (let val = push_bit 16 (ucast b0 :: 32 word) OR push_bit 8 (ucast b1) OR ucast b2
      in [encode (drop_bit 18 val AND 0x3F), encode (drop_bit 12 val AND 0x3F),
          encode (drop_bit 6 val AND 0x3F), encode (val AND 0x3F)]
         @ EncodeToString bs)"

fun skip_newlines :: "string \<Rightarrow> string" where
  "skip_newlines [] = []"
| "skip_newlines (c # cs) = (if is_newline c then skip_newlines cs else c # cs)"

text \<open>
  The tail of \<open>decodeQuantum\<close>: four 6-bit values (missing ones are zero) are packed into
  24 bits, of which the first \<open>dlen - 1\<close> bytes are kept.
\<close>

definition quantum_bytes :: "byte list \<Rightarrow> byte list" where
  "quantum_bytes dbuf =
     (let d = map ucast dbuf @ replicate (4 - length dbuf) (0 :: 32 word);
          val = push_bit 18 (d ! 0) OR push_bit 12 (d ! 1) OR push_bit 6 (d ! 2) OR d ! 3
      in take (length dbuf - 1)
           [ucast (drop_bit 16 val), ucast (drop_bit 8 val), ucast val])"

text \<open>
  \<open>Decode\<close> of the padded, non-strict standard encoding, one character at a time;
  \<open>dbuf\<close> holds the 6-bit values of the quantum being read (fewer than four).
  \<open>None\<close> is \<open>CorruptInputError\<close>. Newlines and carriage returns are skipped; input may
  end only between quanta; padding closes a quantum of two or three values and only
  newlines may follow it.
\<close>

fun Decode :: "byte list \<Rightarrow> string \<Rightarrow> byte list option" where
  "Decode dbuf [] = (if dbuf = [] then Some [] else None)"
| "Decode dbuf (c # cs) =
     (case decodeMap c of
        Some out \<Rightarrow>
          (if length dbuf = 3
           then (case Decode [] cs of
                   None \<Rightarrow> None
                 | Some rest \<Rightarrow> Some (quantum_bytes (dbuf @ [out]) @ rest))
           else Decode (dbuf @ [out]) cs)
      | None \<Rightarrow>
          if is_newline c then Decode dbuf cs
          else if c \<noteq> padChar then None
          else if length dbuf < 2 then None
          else if length dbuf = 2 then
            (case skip_newlines cs of
               [] \<Rightarrow> None
             | p # ps \<Rightarrow>
                 if p \<noteq> padChar then None
                 else if skip_newlines ps \<noteq> [] then None
                 else Some (quantum_bytes dbuf))
          else if skip_newlines cs \<noteq> [] then None
          else Some (quantum_bytes dbuf))"

definition DecodeString :: "string \<Rightarrow> error + byte list" where
  "DecodeString s = (case Decode [] s of None \<Rightarrow> Inl CorruptInputError | Some bs \<Rightarrow> Inr bs)"

section \<open>TLS validation\<close>

text \<open>
  The loop of \<open>ValidateClusterTLSConfig\<close> over the fields, in the order of the slice
  literal; \<open>None\<close> is a nil error.
\<close>

fun validate_fields :: "string list \<Rightarrow> error option" where
  "validate_fields [] = None"
| "validate_fields (v # vs) =
     (if v = [] then Some (ErrorsNew ''missing key on ArgoTLS config'')
      else (case DecodeString v of
              Inl err \<Rightarrow> Some err
            | Inr _ \<Rightarrow> validate_fields vs))"

definition ValidateClusterTLSConfig :: "ArgoTLS \<Rightarrow> error option" where
  "ValidateClusterTLSConfig a = validate_fields [CaData a, CertData a, KeyData a]"

section \<open>Naming\<close>

text \<open>\<open>strings.TrimSuffix\<close>.\<close>

definition TrimSuffix :: "string \<Rightarrow> string \<Rightarrow> string" where
  "TrimSuffix s suffix =
     (if length suffix \<le> length s \<and> drop (length s - length suffix) s = suffix
      then take (length s - length suffix) s else s)"

definition BuildClusterName :: "config \<Rightarrow> string \<Rightarrow> string \<Rightarrow> string" where
  "BuildClusterName cfg s namespace =
     (let prefix = (if EnableNamespacedNames cfg then [] @ namespace @ ''-'' else [])
      in prefix @ s)"

definition BuildNamespacedName :: "config \<Rightarrow> string \<Rightarrow> string \<Rightarrow> NamespacedName" where
  "BuildNamespacedName cfg s namespace =
     \<lparr> Namespace = ArgoNamespace cfg,
       Name = ''cluster-'' @ BuildClusterName cfg (TrimSuffix s ''-kubeconfig'') namespace \<rparr>"

section \<open>Collaborators outside the modelled files\<close>

text \<open>
  Modelled from the spec: the source cluster value (type \<open>CapiCluster\<close>, declared in a
  file that is not part of the sources). It has an identity (name, namespace) and a
  parsed kubeconfig; the fields are the ones \<open>NewArgoCluster\<close> reads:
  \<open>c.Name\<close>, \<open>c.Namespace\<close>, \<open>c.KubeConfig.Clusters[0].Name\<close>,
  \<open>.Cluster.Server\<close>, \<open>.Cluster.CaData\<close>, \<open>c.KubeConfig.Users[0].User.CertData\<close>
  and \<open>.KeyData\<close>.
\<close>

record KubeCluster =
  kc_Name :: string
  kc_Server :: string
  kc_CaData :: string

record KubeUser =
  ku_CertData :: string
  ku_KeyData :: string

record CapiCluster =
  capi_Name :: string
  capi_Namespace :: string
  kube_Clusters :: "KubeCluster list"
  kube_Users :: "KubeUser list"

text \<open>The fields of \<open>corev1.Secret\<close> that the modelled code reads.\<close>

record Secret =
  meta_Name :: string
  meta_Namespace :: string
  secret_Type :: string

datatype get_result = Found Secret | NotFound | GetFailed error

record Request =
  Method :: string
  URL :: string
  Header :: "string \<rightharpoonup> string"
  Body :: "byte list option"

text \<open>A response: its status line and what \<open>ioutil.ReadAll\<close> of its body gives.\<close>

record Response =
  Status :: string
  ReadAll :: "error + byte list"

text \<open>
  Everything a cycle calls and that is not defined in the modelled files:
  \<open>ValidateCapiNaming\<close>, \<open>ValidateCapiSecret\<close>, \<open>NewCapiCluster\<close> and
  \<open>(*CapiCluster).Unmarshal\<close> of this package, the Kubernetes client's \<open>Get\<close>,
  the URL parser behind \<open>http.NewRequest\<close> (\<open>Some\<close> is its error), the HTTP client's
  \<open>Do\<close>, and \<open>encoding/json\<close> on the types above. \<open>json.Marshal\<close> cannot fail on an
  \<open>ArgoCluster\<close> (strings and a string map only), so it is a total function.
\<close>

record env =
  ValidateCapiNaming :: "NamespacedName \<Rightarrow> bool"
  Get :: "NamespacedName \<Rightarrow> get_result"
  ValidateCapiSecret :: "Secret \<Rightarrow> error option"
  NewCapiCluster :: "string \<Rightarrow> string \<Rightarrow> CapiCluster"
  Unmarshal :: "CapiCluster \<Rightarrow> Secret \<Rightarrow> error + CapiCluster"
  url_Parse :: "string \<Rightarrow> error option"
  Do :: "Request \<Rightarrow> error + Response"
  json_Marshal :: "ArgoCluster \<Rightarrow> byte list"
  json_decode :: "byte list \<Rightarrow> error + ClusterList"

text \<open>
  \<open>json.Unmarshal\<close>: empty input (also the nil slice) is a syntax error; anything else
  is left to the decoder of the environment.
\<close>

definition json_Unmarshal :: "env \<Rightarrow> byte list \<Rightarrow> error + ClusterList" where
  "json_Unmarshal e bodyBytes =
     (if bodyBytes = [] then Inl (SyntaxError ''unexpected end of JSON input'')
      else json_decode e bodyBytes)"

text \<open>\<open>url.QueryEscape\<close>.\<close>

definition upperhex :: string where
  "upperhex = ''0123456789ABCDEF''"

definition shouldEscape :: "char \<Rightarrow> bool" where
  "shouldEscape c =
     (let n = (of_char c :: nat)
      in \<not> ((97 \<le> n \<and> n \<le> 122) \<or> (65 \<le> n \<and> n \<le> 90) \<or> (48 \<le> n \<and> n \<le> 57)
            \<or> c = CHR ''-'' \<or> c = CHR ''_'' \<or> c = CHR ''.'' \<or> c = CHR ''~''))"

fun QueryEscape :: "string \<Rightarrow> string" where
  "QueryEscape [] = []"
| "QueryEscape (c # cs) =
     (if c = CHR '' '' then CHR ''+'' # QueryEscape cs
      else if shouldEscape c
      then CHR ''%'' # upperhex ! ((of_char c :: nat) div 16)
             # upperhex ! ((of_char c :: nat) mod 16) # QueryEscape cs
      else c # QueryEscape cs)"

section \<open>Effects of a cycle\<close>

text \<open>
  A cycle's observable effects, in order: a request handed to the HTTP client
  (\<open>client.Do\<close>) and a log line (\<open>log.Info\<close>, \<open>log.Error\<close>; key/value pairs are left
  out). A cycle returns an error or nil (\<open>ctrl.Result\<close> is always empty), or panics.
\<close>

datatype event = Sent Request | LogInfo string | LogError error string

datatype outcome = Return "error option" | Panicked

datatype 'a result = Ok 'a | Err error | Panic

fun sent :: "event \<Rightarrow> Request list" where
  "sent (Sent r) = [r]"
| "sent (LogInfo m) = []"
| "sent (LogError err m) = []"

definition requests_of :: "event list \<Rightarrow> Request list" where
  "requests_of evs = concat (map sent evs)"

definition mutating :: "Request \<Rightarrow> bool" where
  "mutating r = (Method r = ''POST'' \<or> Method r = ''PUT'' \<or> Method r = ''DELETE'')"

definition NewRequest :: "env \<Rightarrow> string \<Rightarrow> string \<Rightarrow> byte list option \<Rightarrow> error + Request" where
  "NewRequest e method url body =
     (case url_Parse e url of
        Some err \<Rightarrow> Inl err
      | None \<Rightarrow> Inr \<lparr> Method = method, URL = url, Header = Map.empty, Body = body \<rparr>)"

definition Header_Set :: "Request \<Rightarrow> string \<Rightarrow> string \<Rightarrow> Request" where
  "Header_Set req k v = req \<lparr> Header := (Header req)(k \<mapsto> v) \<rparr>"

text \<open>
  \<open>sendRequest\<close>. With a body, the content type is set on the request before the error
  of \<open>http.NewRequest\<close> is looked at: on a URL that does not parse the request is nil
  and that statement panics. The response's status is never read.
\<close>

definition sendRequest ::
  "env \<Rightarrow> string \<Rightarrow> string \<Rightarrow> string \<Rightarrow> byte list option \<Rightarrow> byte list result \<times> event list" where
  "sendRequest e method url token data =
     (case (if data \<noteq> None
            then (case NewRequest e method url data of
                    Inl err \<Rightarrow> Panic
                  | Inr req \<Rightarrow> Ok (Header_Set req ''Content-Type'' ''application/json''))
            else (case NewRequest e method url None of
                    Inl err \<Rightarrow> Err err
                  | Inr req \<Rightarrow> Ok req)) of
        Panic \<Rightarrow> (Panic, [])
      | Err err \<Rightarrow> (Err err, [])
      | Ok req0 \<Rightarrow>
          (let req1 = Header_Set req0 ''Authorization'' (''Bearer '' @ token);
               req = Header_Set req1 ''Content-Type'' ''application/json; charset=utf-8''
           in case Do e req of
                Inl err \<Rightarrow> (Err err, [Sent req])
              | Inr resp \<Rightarrow>
                  (case ReadAll resp of
                     Inl err \<Rightarrow> (Err err, [Sent req])
                   | Inr body \<Rightarrow> (Ok body, [Sent req]))))"

section \<open>Building the target (controllers/argo\_cluster.go)\<close>

definition GetArgoCommonLabels :: "(string \<times> string) list" where
  "GetArgoCommonLabels =
     [(''capi-to-argocd/owned'', ''true''), (''argocd.argoproj.io/secret-type'', ''cluster'')]"

text \<open>
  \<open>NewArgoCluster\<close>; \<open>None\<close> is the index-out-of-range panic of \<open>Clusters[0]\<close> or
  \<open>Users[0]\<close> on an empty slice.
\<close>

definition NewArgoCluster :: "config \<Rightarrow> CapiCluster \<Rightarrow> Secret \<Rightarrow> ArgoCluster option" where
  "NewArgoCluster cfg c s =
     (case (kube_Clusters c, kube_Users c) of
        (k # ks, u # us) \<Rightarrow>
          Some \<lparr> NamespacedName = BuildNamespacedName cfg (meta_Name s) (meta_Namespace s),
                 ClusterName = BuildClusterName cfg (kc_Name k) (meta_Namespace s),
                 ClusterServer = kc_Server k,
                 ClusterLabels =
                   [''capi-to-argocd/cluster-secret-name'' \<mapsto> capi_Name c @ ''-kubeconfig'',
                    ''capi-to-argocd/cluster-namespace'' \<mapsto> capi_Namespace c],
                 ClusterConfig =
                   \<lparr> TLSClientConfig =
                       \<lparr> CaData = kc_CaData k, CertData = ku_CertData u, KeyData = ku_KeyData u \<rparr> \<rparr> \<rparr>
      | _ \<Rightarrow> None)"

text \<open>The loop \<open>argoCluster.ClusterLabels[key] = value\<close> over the common labels.\<close>

fun set_labels :: "(string \<times> string) list \<Rightarrow> (string \<rightharpoonup> string) \<Rightarrow> (string \<rightharpoonup> string)" where
  "set_labels [] m = m"
| "set_labels ((key, value) # kvs) m = set_labels kvs (m(key \<mapsto> value))"

text \<open>Indexing a Go map: a missing key (or a nil map) reads as the empty string.\<close>

definition label :: "(string \<rightharpoonup> string) \<Rightarrow> string \<Rightarrow> string" where
  "label m k = (case m k of None \<Rightarrow> [] | Some v \<Rightarrow> v)"

section \<open>Matching and diffing (body of \<open>Reconcile\<close>, both revisions)\<close>

text \<open>The zero value of \<open>ArgoCluster\<close> (\<open>var existingCluster ArgoCluster\<close>).\<close>

definition zero_ArgoCluster :: ArgoCluster where
  "zero_ArgoCluster =
     \<lparr> NamespacedName = \<lparr> Namespace = [], Name = [] \<rparr>, ClusterName = [], ClusterServer = [],
       ClusterLabels = Map.empty,
       ClusterConfig = \<lparr> TLSClientConfig = \<lparr> CaData = [], CertData = [], KeyData = [] \<rparr> \<rparr> \<rparr>"

text \<open>
  The loop over \<open>clusterList.Clusters\<close>; the state is \<open>(exists, existingCluster)\<close>.
  There is no \<open>break\<close>.
\<close>

fun scan :: "ArgoCluster list \<Rightarrow> ArgoCluster \<Rightarrow> bool \<times> ArgoCluster \<Rightarrow> bool \<times> ArgoCluster" where
  "scan [] argoCluster st = st"
| "scan (cluster # rest) argoCluster (exists, existingCluster) =
     scan rest argoCluster
       (if ClusterServer cluster = ClusterServer argoCluster
        then (if label (ClusterLabels cluster) ''capi-to-argocd/owned'' = ''true''
              then (True, cluster)
              else (exists, existingCluster))
        else (exists, existingCluster))"

definition tls :: "ArgoCluster \<Rightarrow> ArgoTLS" where
  "tls c = TLSClientConfig (ClusterConfig c)"

definition set_CaData :: "ArgoCluster \<Rightarrow> string \<Rightarrow> ArgoCluster" where
  "set_CaData c v =
     c \<lparr> ClusterConfig := (ClusterConfig c) \<lparr> TLSClientConfig := (tls c) \<lparr> CaData := v \<rparr> \<rparr> \<rparr>"

definition set_CertData :: "ArgoCluster \<Rightarrow> string \<Rightarrow> ArgoCluster" where
  "set_CertData c v =
     c \<lparr> ClusterConfig := (ClusterConfig c) \<lparr> TLSClientConfig := (tls c) \<lparr> CertData := v \<rparr> \<rparr> \<rparr>"

text \<open>
  The three \<open>if\<close> statements of \<open>case true\<close>: the pair is \<open>(existingCluster, changed)\<close>
  after them.
\<close>

definition sync_fields :: "ArgoCluster \<Rightarrow> ArgoCluster \<Rightarrow> ArgoCluster \<times> bool" where
  "sync_fields existingCluster argoCluster =
     (let s0 = (existingCluster, False);
          s1 = (if ClusterName (fst s0) \<noteq> ClusterName argoCluster
                then ((fst s0) \<lparr> ClusterName := ClusterName argoCluster \<rparr>, True) else s0);
          s2 = (if CaData (tls (fst s1)) \<noteq> CaData (tls argoCluster)
                then (set_CaData (fst s1) (CaData (tls argoCluster)), True) else s1);
          s3 = (if CertData (tls (fst s2)) \<noteq> CertData (tls argoCluster)
                then (set_CertData (fst s2) (CertData (tls argoCluster)), True) else s2)
      in s3)"

definition clusters_url :: "config \<Rightarrow> string" where
  "clusters_url cfg = ''https://'' @ ArgoEndpoint cfg @ ''/api/v1/clusters''"

definition delete_url :: "config \<Rightarrow> NamespacedName \<Rightarrow> string" where
  "delete_url cfg nn =
     ''https://'' @ ArgoEndpoint cfg @ ''/api/v1/clusters/'' @ Namespace nn @ ''?id.type=name''"

definition update_url :: "config \<Rightarrow> ArgoCluster \<Rightarrow> string" where
  "update_url cfg existingCluster =
     ''https://'' @ ArgoEndpoint cfg @ ''/api/v1/clusters/''
       @ QueryEscape (ClusterServer existingCluster)"

text \<open>
  From \<open>log.Info("Fetched CapiSecret")\<close> to the end of the label loop, the same in both
  revisions: the built target, or the cycle's outcome when it ends here.
\<close>

definition build_target ::
  "env \<Rightarrow> config \<Rightarrow> NamespacedName \<Rightarrow> Secret \<Rightarrow> (outcome + ArgoCluster) \<times> event list" where
  "build_target e cfg nn capiSecret =
     (case ValidateCapiSecret e capiSecret of
        Some err \<Rightarrow>
          (Inl (Return (Some err)),
           [LogInfo ''Fetched CapiSecret'',
            LogInfo ''Ignoring secret as it's missing proper CAPI type''])
      | None \<Rightarrow>
          (let n = TrimSuffix (Name nn) ''-kubeconfig'';
               ns = Namespace nn
           in case Unmarshal e (NewCapiCluster e n ns) capiSecret of
                Inl err \<Rightarrow>
                  (Inl (Return (Some err)),
                   [LogInfo ''Fetched CapiSecret'', LogError err ''Failed to unmarshal CapiCluster''])
              | Inr capiCluster \<Rightarrow>
                  (case NewArgoCluster cfg capiCluster capiSecret of
                     None \<Rightarrow> (Inl Panicked, [LogInfo ''Fetched CapiSecret''])
                   | Some argoCluster \<Rightarrow>
                       (Inr (argoCluster \<lparr> ClusterLabels :=
                               set_labels GetArgoCommonLabels (ClusterLabels argoCluster) \<rparr>),
                        [LogInfo ''Fetched CapiSecret'']))))"

section \<open>\<open>Reconcile\<close>, the revision that calls \<open>sendRequest\<close>\<close>

text \<open>Garbage collection: the body of \<open>if EnableGarbageCollection\<close>.\<close>

definition gc_delete :: "env \<Rightarrow> config \<Rightarrow> NamespacedName \<Rightarrow> outcome \<times> event list" where
  "gc_delete e cfg nn =
     (case sendRequest e ''DELETE'' (delete_url cfg nn) (authToken cfg) None of
        (Panic, evs) \<Rightarrow> (Panicked, evs)
      | (Err err, evs) \<Rightarrow> (Return (Some err), evs @ [LogError err ''Error on reconcile/delete''])
      | (Ok body, evs) \<Rightarrow> (Return None, evs @ [LogInfo ''Deleted successfully of ArgoSecret'']))"

text \<open>
  The listing. The error of \<open>sendRequest\<close> is assigned and never read: on a failure
  \<open>bodyBytes\<close> is nil and the cycle goes on to \<open>json.Unmarshal\<close>.
\<close>

definition list_registry :: "env \<Rightarrow> config \<Rightarrow> (outcome + ClusterList) \<times> event list" where
  "list_registry e cfg =
     (case sendRequest e ''GET'' (clusters_url cfg) (authToken cfg) None of
        (Panic, evs) \<Rightarrow> (Inl Panicked, evs)
      | (r, evs) \<Rightarrow>
          (let bodyBytes = (case r of Ok body \<Rightarrow> body | _ \<Rightarrow> [])
           in case json_Unmarshal e bodyBytes of
                Inl err \<Rightarrow>
                  (Inl (Return (Some err)), evs @ [LogError err ''Error decoding JSON response''])
              | Inr clusterList \<Rightarrow> (Inr clusterList, evs)))"

text \<open>\<open>case false\<close>: create.\<close>

definition create_cluster :: "env \<Rightarrow> config \<Rightarrow> ArgoCluster \<Rightarrow> outcome \<times> event list" where
  "create_cluster e cfg argoCluster =
     (let jsonData = json_Marshal e argoCluster
      in case sendRequest e ''POST'' (clusters_url cfg) (authToken cfg) (Some jsonData) of
           (Panic, evs) \<Rightarrow> (Panicked, evs)
         | (Err err, evs) \<Rightarrow> (Return (Some err), evs @ [LogError err ''Error on creating Cluster''])
         | (Ok body, evs) \<Rightarrow> (Return None, evs @ [LogInfo ''Created new ArgoSecret'']))"

text \<open>\<open>case true\<close>: diff and update.\<close>

definition update_cluster ::
  "env \<Rightarrow> config \<Rightarrow> ArgoCluster \<Rightarrow> ArgoCluster \<Rightarrow> outcome \<times> event list" where
  "update_cluster e cfg argoCluster existingCluster0 =
     (let (existingCluster, changed) = sync_fields existingCluster0 argoCluster
      in if changed
         then (let jsonData = json_Marshal e existingCluster
               in case sendRequest e ''PUT'' (update_url cfg existingCluster) (authToken cfg)
                         (Some jsonData) of
                    (Panic, evs) \<Rightarrow>
                      (Panicked,
                       [LogInfo ''Checking if ArgoSecret is out-of-sync with'',
                        LogInfo ''Updating out-of-sync ArgoSecret''] @ evs)
                  | (Err err, evs) \<Rightarrow>
                      (Return (Some err),
                       [LogInfo ''Checking if ArgoSecret is out-of-sync with'',
                        LogInfo ''Updating out-of-sync ArgoSecret''] @ evs
                       @ [LogError err ''Error on Updating''])
                  | (Ok body, evs) \<Rightarrow>
                      (Return None,
                       [LogInfo ''Checking if ArgoSecret is out-of-sync with'',
                        LogInfo ''Updating out-of-sync ArgoSecret''] @ evs
                       @ [LogInfo ''Updated successfully of ArgoSecret'']))
         else (Return None, [LogInfo ''Checking if ArgoSecret is out-of-sync with'']))"

text \<open>The scan and \<open>switch exists\<close>.\<close>

definition decide :: "env \<Rightarrow> config \<Rightarrow> ArgoCluster \<Rightarrow> ClusterList \<Rightarrow> outcome \<times> event list" where
  "decide e cfg argoCluster clusterList =
     (case scan (Clusters clusterList) argoCluster (False, zero_ArgoCluster) of
        (False, existingCluster) \<Rightarrow> create_cluster e cfg argoCluster
      | (True, existingCluster) \<Rightarrow> update_cluster e cfg argoCluster existingCluster)"

text \<open>
  Everything between the fetch and the scan: the built target and the decoded listing,
  or the outcome of a cycle that ends before the scan.
\<close>

definition prepare ::
  "env \<Rightarrow> config \<Rightarrow> NamespacedName \<Rightarrow> Secret
     \<Rightarrow> (outcome + ArgoCluster \<times> ClusterList) \<times> event list" where
  "prepare e cfg nn capiSecret =
     (case build_target e cfg nn capiSecret of
        (Inl out, evs) \<Rightarrow> (Inl out, evs)
      | (Inr argoCluster, evs) \<Rightarrow>
          (case list_registry e cfg of
             (Inl out, evs') \<Rightarrow> (Inl out, evs @ evs')
           | (Inr clusterList, evs') \<Rightarrow> (Inr (argoCluster, clusterList), evs @ evs')))"

definition Reconcile :: "env \<Rightarrow> config \<Rightarrow> NamespacedName \<Rightarrow> outcome \<times> event list" where
  "Reconcile e cfg nn =
     (if \<not> ValidateCapiNaming e nn then (Return None, [])
      else (case Get e nn of
              GetFailed err \<Rightarrow> (Return (Some err), [])
            | NotFound \<Rightarrow>
                if EnableGarbageCollection cfg then gc_delete e cfg nn else (Return None, [])
            | Found capiSecret \<Rightarrow>
                (case prepare e cfg nn capiSecret of
                   (Inl out, evs) \<Rightarrow> (out, evs)
                 | (Inr (argoCluster, clusterList), evs) \<Rightarrow>
                     (case decide e cfg argoCluster clusterList of
                        (out, evs') \<Rightarrow> (out, evs @ evs')))))"

section \<open>\<open>Reconcile\<close>, the revision that builds its requests inline\<close>

text \<open>
  \<open>http.NewRequest\<close> followed by the two \<open>Header.Set\<close> calls, as written out before
  each of the four calls.
\<close>

definition build_request ::
  "env \<Rightarrow> config \<Rightarrow> string \<Rightarrow> string \<Rightarrow> byte list option \<Rightarrow> error + Request" where
  "build_request e cfg method url body =
     (case NewRequest e method url body of
        Inl err \<Rightarrow> Inl err
      | Inr req \<Rightarrow>
          Inr (Header_Set (Header_Set req ''Content-Type'' ''application/json; charset=utf-8'')
                 ''Authorization'' (''Bearer '' @ authToken cfg)))"

text \<open>
  Garbage collection. On a status other than \<open>200 OK\<close> the error is logged and the
  variable returned is the nil error of \<open>client.Do\<close>.
\<close>

definition gc_delete_inline :: "env \<Rightarrow> config \<Rightarrow> NamespacedName \<Rightarrow> outcome \<times> event list" where
  "gc_delete_inline e cfg nn =
     (case build_request e cfg ''DELETE'' (delete_url cfg nn) None of
        Inl err \<Rightarrow> (Return (Some err), [LogError err ''Error on deleting request object: ''])
      | Inr req \<Rightarrow>
          (case Do e req of
             Inl err \<Rightarrow> (Return (Some err), [Sent req, LogError err ''Error on dispatching request''])
           | Inr resp \<Rightarrow>
               if Status resp \<noteq> ''200 OK''
               then (Return None,
                     [Sent req, LogError (ErrorsNew ''Error while updating'') ''Error while updating''])
               else (Return None, [Sent req, LogInfo ''Deleted successfully of ArgoSecret''])))"

definition list_registry_inline :: "env \<Rightarrow> config \<Rightarrow> (outcome + ClusterList) \<times> event list" where
  "list_registry_inline e cfg =
     (case build_request e cfg ''GET'' (clusters_url cfg) None of
        Inl err \<Rightarrow> (Inl (Return (Some err)), [LogError err ''Error on creating request object: ''])
      | Inr getreq \<Rightarrow>
          (case Do e getreq of
             Inl err \<Rightarrow>
               (Inl (Return (Some err)), [Sent getreq, LogError err ''Error on dispatching request''])
           | Inr resp \<Rightarrow>
               (case ReadAll resp of
                  Inl err \<Rightarrow>
                    (Inl (Return (Some err)),
                     [Sent getreq, LogError err ''Error reading response body: ''])
                | Inr bodyBytes \<Rightarrow>
                    (case json_Unmarshal e bodyBytes of
                       Inl err \<Rightarrow>
                         (Inl (Return (Some err)),
                          [Sent getreq, LogError err ''Error decoding JSON response''])
                     | Inr clusterList \<Rightarrow> (Inr clusterList, [Sent getreq])))))"

definition create_cluster_inline :: "env \<Rightarrow> config \<Rightarrow> ArgoCluster \<Rightarrow> outcome \<times> event list" where
  "create_cluster_inline e cfg argoCluster =
     (let jsonData = json_Marshal e argoCluster
      in case build_request e cfg ''POST'' (clusters_url cfg) (Some jsonData) of
           Inl err \<Rightarrow> (Return (Some err), [LogError err ''Error on creating request object: ''])
         | Inr req \<Rightarrow>
             (case Do e req of
                Inl err \<Rightarrow>
                  (Return (Some err), [Sent req, LogError err ''Error on dispatching request''])
              | Inr resp \<Rightarrow> (Return None, [Sent req, LogInfo ''Created new ArgoSecret''])))"

definition update_cluster_inline ::
  "env \<Rightarrow> config \<Rightarrow> ArgoCluster \<Rightarrow> ArgoCluster \<Rightarrow> outcome \<times> event list" where
  "update_cluster_inline e cfg argoCluster existingCluster0 =
     (let (existingCluster, changed) = sync_fields existingCluster0 argoCluster
      in if changed
         then (let jsonData = json_Marshal e existingCluster
               in case build_request e cfg ''PUT'' (update_url cfg existingCluster)
                         (Some jsonData) of
                    Inl err \<Rightarrow>
                      (Return (Some err),
                       [LogInfo ''Checking if ArgoSecret is out-of-sync with'',
                        LogInfo ''Updating out-of-sync ArgoSecret'',
                        LogError err ''Error on creating request object: ''])
                  | Inr req \<Rightarrow>
                      (case Do e req of
                         Inl err \<Rightarrow>
                           (Return (Some err),
                            [LogInfo ''Checking if ArgoSecret is out-of-sync with'',
                             LogInfo ''Updating out-of-sync ArgoSecret'',
                             Sent req, LogError err ''Error on dispatching request''])
                       | Inr resp \<Rightarrow>
                           (Return None,
                            [LogInfo ''Checking if ArgoSecret is out-of-sync with'',
                             LogInfo ''Updating out-of-sync ArgoSecret'', Sent req]
                            @ (if Status resp \<noteq> ''200 OK''
                               then [LogError (ErrorsNew ''Error while updating'')
                                       ''Error while updating'']
                               else [])
                            @ [LogInfo ''Updated successfully of ArgoSecret''])))
         else (Return None, [LogInfo ''Checking if ArgoSecret is out-of-sync with'']))"

definition decide_inline ::
  "env \<Rightarrow> config \<Rightarrow> ArgoCluster \<Rightarrow> ClusterList \<Rightarrow> outcome \<times> event list" where
  "decide_inline e cfg argoCluster clusterList =
     (case scan (Clusters clusterList) argoCluster (False, zero_ArgoCluster) of
        (False, existingCluster) \<Rightarrow> create_cluster_inline e cfg argoCluster
      | (True, existingCluster) \<Rightarrow> update_cluster_inline e cfg argoCluster existingCluster)"

definition prepare_inline ::
  "env \<Rightarrow> config \<Rightarrow> NamespacedName \<Rightarrow> Secret
     \<Rightarrow> (outcome + ArgoCluster \<times> ClusterList) \<times> event list" where
  "prepare_inline e cfg nn capiSecret =
     (case build_target e cfg nn capiSecret of
        (Inl out, evs) \<Rightarrow> (Inl out, evs)
      | (Inr argoCluster, evs) \<Rightarrow>
          (case list_registry_inline e cfg of
             (Inl out, evs') \<Rightarrow> (Inl out, evs @ evs')
           | (Inr clusterList, evs') \<Rightarrow> (Inr (argoCluster, clusterList), evs @ evs')))"

definition Reconcile_inline :: "env \<Rightarrow> config \<Rightarrow> NamespacedName \<Rightarrow> outcome \<times> event list" where
  "Reconcile_inline e cfg nn =
     (if \<not> ValidateCapiNaming e nn then (Return None, [])
      else (case Get e nn of
              GetFailed err \<Rightarrow> (Return (Some err), [])
            | NotFound \<Rightarrow>
                if EnableGarbageCollection cfg then gc_delete_inline e cfg nn else (Return None, [])
            | Found capiSecret \<Rightarrow>
                (case prepare_inline e cfg nn capiSecret of
                   (Inl out, evs) \<Rightarrow> (out, evs)
                 | (Inr (argoCluster, clusterList), evs) \<Rightarrow>
                     (case decide_inline e cfg argoCluster clusterList of
                        (out, evs') \<Rightarrow> (out, evs @ evs')))))"

section \<open>Terms used in the statements\<close>

text \<open>
  The request both revisions hand to the HTTP client for a method, URL, token and body:
  the two headers are the ones left after all \<open>Header.Set\<close> calls.
\<close>

definition std_request :: "string \<Rightarrow> string \<Rightarrow> string \<Rightarrow> byte list option \<Rightarrow> Request" where
  "std_request method url token body =
     \<lparr> Method = method, URL = url,
       Header = [''Content-Type'' \<mapsto> ''application/json; charset=utf-8'',
                 ''Authorization'' \<mapsto> ''Bearer '' @ token],
       Body = body \<rparr>"

text \<open>The listing request.\<close>

definition list_request :: "config \<Rightarrow> Request" where
  "list_request cfg = std_request ''GET'' (clusters_url cfg) (authToken cfg) None"

text \<open>
  The existing entry with the target's name, CA data and certificate data, and
  everything else its own.
\<close>

definition merged :: "ArgoCluster \<Rightarrow> ArgoCluster \<Rightarrow> ArgoCluster" where
  "merged existingCluster argoCluster =
     \<lparr> NamespacedName = NamespacedName existingCluster,
       ClusterName = ClusterName argoCluster,
       ClusterServer = ClusterServer existingCluster,
       ClusterLabels = ClusterLabels existingCluster,
       ClusterConfig =
         \<lparr> TLSClientConfig =
             \<lparr> CaData = CaData (tls argoCluster), CertData = CertData (tls argoCluster),
               KeyData = KeyData (tls existingCluster) \<rparr> \<rparr> \<rparr>"

text \<open>Whether a field decodes as standard base64.\<close>

definition decodes :: "string \<Rightarrow> bool" where
  "decodes v = (case DecodeString v of Inl err \<Rightarrow> False | Inr bs \<Rightarrow> True)"

section \<open>Example inputs\<close>

text \<open>The encoded string of the repository's test: the bytes of \<open>test\<close>.\<close>

definition test_enc :: string where
  "test_enc = EncodeToString [0x74, 0x65, 0x73, 0x74]"

definition ex_cfg :: "bool \<Rightarrow> bool \<Rightarrow> config" where
  "ex_cfg gc namespaced =
     \<lparr> ArgoNamespace = ''argocd'', ArgoEndpoint = ''argocd.example'', authToken = ''t0ken'',
       EnableGarbageCollection = gc, EnableNamespacedNames = namespaced \<rparr>"

definition ex_nn :: NamespacedName where
  "ex_nn = \<lparr> Namespace = ''team-a'', Name = ''prod-kubeconfig'' \<rparr>"

definition ex_secret :: Secret where
  "ex_secret =
     \<lparr> meta_Name = ''prod-kubeconfig'', meta_Namespace = ''team-a'',
       secret_Type = ''cluster.x-k8s.io/secret'' \<rparr>"

text \<open>A source cluster for the server \<open>https://10.0.0.1:6443\<close> with the given TLS fields.\<close>

definition ex_capi :: "string \<Rightarrow> string \<Rightarrow> string \<Rightarrow> CapiCluster" where
  "ex_capi ca cert key =
     \<lparr> capi_Name = ''prod'', capi_Namespace = ''team-a'',
       kube_Clusters = [\<lparr> kc_Name = ''prod'', kc_Server = ''https://10.0.0.1:6443'', kc_CaData = ca \<rparr>],
       kube_Users = [\<lparr> ku_CertData = cert, ku_KeyData = key \<rparr>] \<rparr>"

text \<open>The target built from \<open>ex_capi\<close> and \<open>ex_secret\<close> without namespaced names.\<close>

definition ex_target :: "string \<Rightarrow> string \<Rightarrow> string \<Rightarrow> ArgoCluster" where
  "ex_target ca cert key =
     \<lparr> NamespacedName = \<lparr> Namespace = ''argocd'', Name = ''cluster-prod'' \<rparr>,
       ClusterName = ''prod'', ClusterServer = ''https://10.0.0.1:6443'',
       ClusterLabels =
         [''capi-to-argocd/cluster-secret-name'' \<mapsto> ''prod-kubeconfig'',
          ''capi-to-argocd/cluster-namespace'' \<mapsto> ''team-a'',
          ''capi-to-argocd/owned'' \<mapsto> ''true'',
          ''argocd.argoproj.io/secret-type'' \<mapsto> ''cluster''],
       ClusterConfig = \<lparr> TLSClientConfig = \<lparr> CaData = ca, CertData = cert, KeyData = key \<rparr> \<rparr> \<rparr>"

text \<open>A registry entry for the same server, with a name, labels and a key of its own.\<close>

definition ex_entry :: "string \<Rightarrow> (string \<rightharpoonup> string) \<Rightarrow> string \<Rightarrow> ArgoCluster" where
  "ex_entry name labels key =
     \<lparr> NamespacedName = \<lparr> Namespace = [], Name = [] \<rparr>,
       ClusterName = name, ClusterServer = ''https://10.0.0.1:6443'',
       ClusterLabels = labels,
       ClusterConfig = \<lparr> TLSClientConfig = \<lparr> CaData = test_enc, CertData = test_enc, KeyData = key \<rparr> \<rparr> \<rparr>"

text \<open>
  A stand-in for \<open>json.Marshal\<close> in the examples: name, server and the three TLS fields,
  one per line, as bytes.
\<close>

definition ex_Marshal :: "ArgoCluster \<Rightarrow> byte list" where
  "ex_Marshal c =
     map of_char
       (ClusterName c @ [CHR 0x0A] @ ClusterServer c @ [CHR 0x0A] @ CaData (tls c) @ [CHR 0x0A]
        @ CertData (tls c) @ [CHR 0x0A] @ KeyData (tls c))"

text \<open>A registry that answers the listing and refuses the connection of anything else.\<close>

definition ex_Do_refused :: "Request \<Rightarrow> error + Response" where
  "ex_Do_refused r =
     (if Method r = ''GET'' then Inr \<lparr> Status = ''200 OK'', ReadAll = Inr [0x7B, 0x7D] \<rparr>
      else Inl (Opaque ''connection refused''))"

text \<open>A registry that cannot be reached.\<close>

definition ex_Do_down :: "Request \<Rightarrow> error + Response" where
  "ex_Do_down r = Inl (Opaque ''connection refused'')"

text \<open>
  A registry that answers the listing with \<open>200 OK\<close> and a body, and anything else with
  the given status and body.
\<close>

definition ex_Do :: "string \<Rightarrow> error + byte list \<Rightarrow> Request \<Rightarrow> error + Response" where
  "ex_Do status body r =
     (if Method r = ''GET'' then Inr \<lparr> Status = ''200 OK'', ReadAll = Inr [0x7B, 0x7D] \<rparr>
      else Inr \<lparr> Status = status, ReadAll = body \<rparr>)"

text \<open>
  An environment: secrets named \<open>*-kubeconfig\<close> pass the naming check, the fetch gives
  \<open>got\<close>, extraction gives \<open>capi\<close>, every URL parses, the client is \<open>do\<close>, and the listing
  decodes to \<open>listing\<close>.
\<close>

definition ex_env ::
  "get_result \<Rightarrow> CapiCluster \<Rightarrow> (Request \<Rightarrow> error + Response) \<Rightarrow> ArgoCluster list \<Rightarrow> env" where
  "ex_env got capi do listing =
     \<lparr> ValidateCapiNaming = (\<lambda>nn. TrimSuffix (Name nn) ''-kubeconfig'' \<noteq> Name nn),
       Get = (\<lambda>nn. got),
       ValidateCapiSecret =
         (\<lambda>s. if secret_Type s = ''cluster.x-k8s.io/secret'' then None
              else Some (Opaque ''wrong secret type'')),
       NewCapiCluster =
         (\<lambda>n ns. \<lparr> capi_Name = n, capi_Namespace = ns, kube_Clusters = [], kube_Users = [] \<rparr>),
       Unmarshal = (\<lambda>c s. Inr capi),
       url_Parse = (\<lambda>u. None),
       Do = do,
       json_Marshal = ex_Marshal,
       json_decode = (\<lambda>bs. Inr \<lparr> Clusters = listing \<rparr>) \<rparr>"

section \<open>Base64: packing and unpacking\<close>

lemma mask6: "(0x3F :: 32 word) = mask 6" by (simp add: mask_eq_exp_minus_1)

lemma sextet_ucast: "(ucast (ucast ((w :: 32 word) AND 0x3F) :: byte) :: 32 word) = w AND mask 6"
  unfolding mask6 by (rule bit_word_eqI) (auto simp: bit_simps)

lemma repack32:
  fixes v :: "32 word"
  shows "push_bit 18 (drop_bit 18 v AND mask 6) OR push_bit 12 (drop_bit 12 v AND mask 6)
         OR push_bit 6 (drop_bit 6 v AND mask 6) OR (v AND mask 6) = v AND mask 24"
proof (rule bit_word_eqI)
  fix n :: nat
  assume "n < LENGTH(32)"
  consider "n < 6" | "6 \<le> n" "n < 12" | "12 \<le> n" "n < 18" | "18 \<le> n" "n < 24" | "24 \<le> n"
    by linarith
  then show "bit (push_bit 18 (drop_bit 18 v AND mask 6) OR push_bit 12 (drop_bit 12 v AND mask 6)
         OR push_bit 6 (drop_bit 6 v AND mask 6) OR (v AND mask 6)) n = bit (v AND mask 24) n"
    by cases (auto simp: bit_simps)
qed

lemma repack32_3:
  fixes v :: "32 word"
  shows "push_bit 18 (drop_bit 18 v AND mask 6) OR push_bit 12 (drop_bit 12 v AND mask 6)
         OR push_bit 6 (drop_bit 6 v AND mask 6) = v AND mask 24 AND NOT (mask 6)"
proof (rule bit_word_eqI)
  fix n :: nat
  assume "n < LENGTH(32)"
  consider "n < 6" | "6 \<le> n" "n < 12" | "12 \<le> n" "n < 18" | "18 \<le> n" "n < 24" | "24 \<le> n"
    by linarith
  then show "bit (push_bit 18 (drop_bit 18 v AND mask 6) OR push_bit 12 (drop_bit 12 v AND mask 6)
         OR push_bit 6 (drop_bit 6 v AND mask 6)) n = bit (v AND mask 24 AND NOT (mask 6)) n"
    by cases (auto simp: bit_simps)
qed

lemma repack32_2:
  fixes v :: "32 word"
  shows "push_bit 18 (drop_bit 18 v AND mask 6) OR push_bit 12 (drop_bit 12 v AND mask 6)
          = v AND mask 24 AND NOT (mask 12)"
proof (rule bit_word_eqI)
  fix n :: nat
  assume "n < LENGTH(32)"
  consider "n < 12" | "12 \<le> n" "n < 18" | "18 \<le> n" "n < 24" | "24 \<le> n"
    by linarith
  then show "bit (push_bit 18 (drop_bit 18 v AND mask 6) OR push_bit 12 (drop_bit 12 v AND mask 6)) n
     = bit (v AND mask 24 AND NOT (mask 12)) n"
    by cases (auto simp: bit_simps)
qed

lemma quantum_bytes4:
  "quantum_bytes [s0, s1, s2, s3] =
     [ucast (drop_bit 16 (push_bit 18 (ucast s0 :: 32 word) OR push_bit 12 (ucast s1) OR push_bit 6 (ucast s2) OR ucast s3)),
      ucast (drop_bit 8 (push_bit 18 (ucast s0 :: 32 word) OR push_bit 12 (ucast s1) OR push_bit 6 (ucast s2) OR ucast s3)),
      ucast (push_bit 18 (ucast s0 :: 32 word) OR push_bit 12 (ucast s1) OR push_bit 6 (ucast s2) OR ucast s3)]"
  by (simp add: quantum_bytes_def)

lemma quantum_bytes3:
  "quantum_bytes [s0, s1, s2] =
     [ucast (drop_bit 16 (push_bit 18 (ucast s0 :: 32 word) OR push_bit 12 (ucast s1) OR push_bit 6 (ucast s2))),
      ucast (drop_bit 8 (push_bit 18 (ucast s0 :: 32 word) OR push_bit 12 (ucast s1) OR push_bit 6 (ucast s2)))]"
  by (simp add: quantum_bytes_def)

lemma quantum_bytes2:
  "quantum_bytes [s0, s1] =
     [ucast (drop_bit 16 (push_bit 18 (ucast s0 :: 32 word) OR push_bit 12 (ucast s1)))]"
  by (simp add: quantum_bytes_def)

lemma quantum4:
  fixes b0 b1 b2 :: byte
  defines "val \<equiv> push_bit 16 (ucast b0 :: 32 word) OR push_bit 8 (ucast b1) OR ucast b2"
  shows "quantum_bytes [ucast (drop_bit 18 val AND 0x3F), ucast (drop_bit 12 val AND 0x3F),
           ucast (drop_bit 6 val AND 0x3F), ucast (val AND 0x3F)] = [b0, b1, b2]"
proof -
  have v: "val AND mask 24 = val"
    unfolding val_def by (rule bit_word_eqI) (auto simp add: bit_simps dest: bit_imp_le_length)
  have b: "ucast (drop_bit 16 val) = b0" "ucast (drop_bit 8 val) = b1" "ucast val = b2"
    unfolding val_def by (rule bit_word_eqI; auto simp add: bit_simps dest: bit_imp_le_length)+
  show ?thesis
    by (simp only: quantum_bytes4 sextet_ucast repack32 v b)
qed

lemma quantum3:
  fixes b0 b1 :: byte
  defines "val \<equiv> push_bit 16 (ucast b0 :: 32 word) OR push_bit 8 (ucast b1)"
  shows "quantum_bytes [ucast (drop_bit 18 val AND 0x3F), ucast (drop_bit 12 val AND 0x3F),
           ucast (drop_bit 6 val AND 0x3F)] = [b0, b1]"
proof -
  have b: "ucast (drop_bit 16 (val AND mask 24 AND NOT (mask 6))) = b0"
          "ucast (drop_bit 8 (val AND mask 24 AND NOT (mask 6))) = b1"
    unfolding val_def by (rule bit_word_eqI; auto simp add: bit_simps dest: bit_imp_le_length)+
  show ?thesis
    by (simp only: quantum_bytes3 sextet_ucast repack32_3 b)
qed

lemma quantum2:
  fixes b0 :: byte
  defines "val \<equiv> push_bit 16 (ucast b0 :: 32 word)"
  shows "quantum_bytes [ucast (drop_bit 18 val AND 0x3F), ucast (drop_bit 12 val AND 0x3F)] = [b0]"
proof -
  have b: "ucast (drop_bit 16 (val AND mask 24 AND NOT (mask 12))) = b0"
    unfolding val_def by (rule bit_word_eqI; auto simp add: bit_simps dest: bit_imp_le_length)+
  show ?thesis
    by (simp only: quantum_bytes2 sextet_ucast repack32_2 b)
qed

section \<open>Base64: decoding an encoding\<close>

lemma alphabet_index: "\<forall>i\<in>{0..<64}. decodeMap (encodeStd ! i) = Some (of_nat i)"
  by code_simp

lemma sextet_lt: "unat ((w :: 32 word) AND 0x3F) < 64"
proof -
  have "w AND 0x3F \<le> 0x3F" by (rule word_and_le1)
  then show ?thesis by (simp add: word_le_nat_alt)
qed

lemma decodeMap_encode: "decodeMap (encode (w AND 0x3F)) = Some (ucast (w AND 0x3F))"
proof -
  have "unat (w AND 0x3F) \<in> {0..<64}" using sextet_lt [of w] by simp
  then have "decodeMap (encodeStd ! unat (w AND 0x3F)) = Some (of_nat (unat (w AND 0x3F)))"
    using alphabet_index by blast
  then show ?thesis by (simp only: encode_def of_nat_unat)
qed

lemma decodeMap_padChar: "decodeMap padChar = None"
  by code_simp

lemma padChar_not_newline: "\<not> is_newline padChar"
  by code_simp

lemma Decode_sextet:
  "Decode dbuf (encode (w AND 0x3F) # cs) =
     (if length dbuf = 3
      then (case Decode [] cs of None \<Rightarrow> None
            | Some rest \<Rightarrow> Some (quantum_bytes (dbuf @ [ucast (w AND 0x3F)]) @ rest))
      else Decode (dbuf @ [ucast (w AND 0x3F)]) cs)"
  by (simp only: Decode.simps decodeMap_encode option.case)

lemma Decode_pad2: "Decode [s0, s1] [padChar, padChar] = Some (quantum_bytes [s0, s1])"
  by (simp add: decodeMap_padChar padChar_not_newline)

lemma Decode_pad3: "Decode [s0, s1, s2] [padChar] = Some (quantum_bytes [s0, s1, s2])"
  by (simp add: decodeMap_padChar padChar_not_newline)

lemma Decode_EncodeToString: "Decode [] (EncodeToString bs) = Some bs"
proof (induction bs rule: EncodeToString.induct)
  case 1
  show ?case by simp
next
  case (2 b0)
  show ?case
    by (simp only: EncodeToString.simps Let_def Decode_sextet Decode_pad2 quantum2 list.size append.simps) simp
next
  case (3 b0 b1)
  show ?case
    by (simp only: EncodeToString.simps Let_def Decode_sextet Decode_pad3 quantum3 list.size append.simps) simp
next
  case (4 b0 b1 b2 bs)
  then show ?case
    by (simp only: EncodeToString.simps Let_def Decode_sextet quantum4 list.size append.simps) simp
qed

lemma EncodeToString_empty: "EncodeToString bs = [] \<longleftrightarrow> bs = []"
  by (induction bs rule: EncodeToString.induct) (simp_all add: Let_def)

section \<open>Requests, diff and scan\<close>

lemma build_request_eq:
  "build_request e cfg method url body =
     (case url_Parse e url of
        Some err \<Rightarrow> Inl err
      | None \<Rightarrow> Inr (std_request method url (authToken cfg) body))"
  by (simp add: build_request_def NewRequest_def Header_Set_def std_request_def split: option.splits)

lemma headers_eq:
  "[''Content-Type'' \<mapsto> ''application/json'', ''Authorization'' \<mapsto> b, ''Content-Type'' \<mapsto> c]
   = [''Content-Type'' \<mapsto> c, ''Authorization'' \<mapsto> b]"
  "[''Authorization'' \<mapsto> b, ''Content-Type'' \<mapsto> c] = [''Content-Type'' \<mapsto> c, ''Authorization'' \<mapsto> (b::string)]"
  by (auto simp: fun_eq_iff)

lemma sendRequest_eq:
  "sendRequest e method url token data =
     (case url_Parse e url of
        Some err \<Rightarrow> (if data \<noteq> None then (Panic, []) else (Err err, []))
      | None \<Rightarrow>
          (case Do e (std_request method url token data) of
             Inl err \<Rightarrow> (Err err, [Sent (std_request method url token data)])
           | Inr resp \<Rightarrow>
               (case ReadAll resp of
                  Inl err \<Rightarrow> (Err err, [Sent (std_request method url token data)])
                | Inr body \<Rightarrow> (Ok body, [Sent (std_request method url token data)]))))"
  by (cases data; cases "url_Parse e url")
     (simp_all add: sendRequest_def NewRequest_def Header_Set_def std_request_def headers_eq Let_def split: sum.splits)

lemma sync_fields_eq:
  "sync_fields ex a =
     (merged ex a,
      ClusterName ex \<noteq> ClusterName a \<or> CaData (tls ex) \<noteq> CaData (tls a)
        \<or> CertData (tls ex) \<noteq> CertData (tls a))"
  by (simp add: sync_fields_def merged_def tls_def set_CaData_def set_CertData_def Let_def)

lemma scan_last:
  "scan cs a st =
     (case filter (\<lambda>c. ClusterServer c = ClusterServer a
                       \<and> ClusterLabels c ''capi-to-argocd/owned'' = Some ''true'') cs of
        [] \<Rightarrow> st
      | m # ms \<Rightarrow> (True, last (m # ms)))"
proof (induction cs arbitrary: st)
  case Nil
  show ?case by simp
next
  case (Cons c cs)
  obtain ex exc where st: "st = (ex, exc)" by (cases st)
  show ?case
    by (simp add: st Cons.IH label_def split: list.splits option.splits)
qed

section \<open>The stages of the \<open>sendRequest\<close> revision\<close>

lemma requests_of_simps [simp]:
  "requests_of [] = []"
  "requests_of (Sent r # evs) = r # requests_of evs"
  "requests_of (LogInfo m # evs) = requests_of evs"
  "requests_of (LogError err m # evs) = requests_of evs"
  "requests_of (evs @ evs') = requests_of evs @ requests_of evs'"
  by (simp_all add: requests_of_def)

lemma gc_delete_eq:
  "gc_delete e cfg nn =
     (case url_Parse e (delete_url cfg nn) of
        Some err \<Rightarrow> (Return (Some err), [LogError err ''Error on reconcile/delete''])
      | None \<Rightarrow>
          (case Do e (std_request ''DELETE'' (delete_url cfg nn) (authToken cfg) None) of
             Inl err \<Rightarrow>
               (Return (Some err),
                [Sent (std_request ''DELETE'' (delete_url cfg nn) (authToken cfg) None),
                 LogError err ''Error on reconcile/delete''])
           | Inr resp \<Rightarrow>
               (case ReadAll resp of
                  Inl err \<Rightarrow>
                    (Return (Some err),
                     [Sent (std_request ''DELETE'' (delete_url cfg nn) (authToken cfg) None),
                      LogError err ''Error on reconcile/delete''])
                | Inr body \<Rightarrow>
                    (Return None,
                     [Sent (std_request ''DELETE'' (delete_url cfg nn) (authToken cfg) None),
                      LogInfo ''Deleted successfully of ArgoSecret'']))))"
  by (simp add: gc_delete_def sendRequest_eq split: option.splits sum.splits)

lemma list_registry_eq:
  "list_registry e cfg =
     (case url_Parse e (clusters_url cfg) of
        Some err \<Rightarrow>
          (Inl (Return (Some (SyntaxError ''unexpected end of JSON input''))),
           [LogError (SyntaxError ''unexpected end of JSON input'') ''Error decoding JSON response''])
      | None \<Rightarrow>
          (case (case Do e (list_request cfg) of
                   Inl err \<Rightarrow> []
                 | Inr resp \<Rightarrow> (case ReadAll resp of Inl err \<Rightarrow> [] | Inr body \<Rightarrow> body)) of
             bodyBytes \<Rightarrow>
               (case json_Unmarshal e bodyBytes of
                  Inl err \<Rightarrow>
                    (Inl (Return (Some err)),
                     [Sent (list_request cfg), LogError err ''Error decoding JSON response''])
                | Inr clusterList \<Rightarrow> (Inr clusterList, [Sent (list_request cfg)]))))"
  by (simp add: list_registry_def sendRequest_eq list_request_def json_Unmarshal_def
           split: option.splits sum.splits)

lemma create_cluster_eq:
  "create_cluster e cfg a =
     (case url_Parse e (clusters_url cfg) of
        Some err \<Rightarrow> (Panicked, [])
      | None \<Rightarrow>
          (case Do e (std_request ''POST'' (clusters_url cfg) (authToken cfg) (Some (json_Marshal e a))) of
             Inl err \<Rightarrow>
               (Return (Some err),
                [Sent (std_request ''POST'' (clusters_url cfg) (authToken cfg) (Some (json_Marshal e a))),
                 LogError err ''Error on creating Cluster''])
           | Inr resp \<Rightarrow>
               (case ReadAll resp of
                  Inl err \<Rightarrow>
                    (Return (Some err),
                     [Sent (std_request ''POST'' (clusters_url cfg) (authToken cfg) (Some (json_Marshal e a))),
                      LogError err ''Error on creating Cluster''])
                | Inr body \<Rightarrow>
                    (Return None,
                     [Sent (std_request ''POST'' (clusters_url cfg) (authToken cfg) (Some (json_Marshal e a))),
                      LogInfo ''Created new ArgoSecret'']))))"
  by (simp add: create_cluster_def sendRequest_eq split: option.splits sum.splits)

lemma requests_create_cluster:
  "url_Parse e (clusters_url cfg) = None \<Longrightarrow>
   requests_of (snd (create_cluster e cfg a)) =
     [std_request ''POST'' (clusters_url cfg) (authToken cfg) (Some (json_Marshal e a))]"
  by (simp add: create_cluster_eq split: sum.splits)

lemma update_cluster_unchanged:
  "ClusterName ex = ClusterName a \<Longrightarrow> CaData (tls ex) = CaData (tls a) \<Longrightarrow>
   CertData (tls ex) = CertData (tls a) \<Longrightarrow>
   update_cluster e cfg a ex = (Return None, [LogInfo ''Checking if ArgoSecret is out-of-sync with''])"
  by (simp add: update_cluster_def sync_fields_eq)

lemma update_cluster_changed:
  "ClusterName ex \<noteq> ClusterName a \<or> CaData (tls ex) \<noteq> CaData (tls a) \<or>
   CertData (tls ex) \<noteq> CertData (tls a) \<Longrightarrow>
   update_cluster e cfg a ex =
     (case url_Parse e (update_url cfg (merged ex a)) of
        Some err \<Rightarrow>
          (Panicked,
           [LogInfo ''Checking if ArgoSecret is out-of-sync with'',
            LogInfo ''Updating out-of-sync ArgoSecret''])
      | None \<Rightarrow>
          (case Do e (std_request ''PUT'' (update_url cfg (merged ex a)) (authToken cfg)
                        (Some (json_Marshal e (merged ex a)))) of
             Inl err \<Rightarrow>
               (Return (Some err),
                [LogInfo ''Checking if ArgoSecret is out-of-sync with'',
                 LogInfo ''Updating out-of-sync ArgoSecret'',
                 Sent (std_request ''PUT'' (update_url cfg (merged ex a)) (authToken cfg)
                         (Some (json_Marshal e (merged ex a)))),
                 LogError err ''Error on Updating''])
           | Inr resp \<Rightarrow>
               (case ReadAll resp of
                  Inl err \<Rightarrow>
                    (Return (Some err),
                     [LogInfo ''Checking if ArgoSecret is out-of-sync with'',
                      LogInfo ''Updating out-of-sync ArgoSecret'',
                      Sent (std_request ''PUT'' (update_url cfg (merged ex a)) (authToken cfg)
                              (Some (json_Marshal e (merged ex a)))),
                      LogError err ''Error on Updating''])
                | Inr body \<Rightarrow>
                    (Return None,
                     [LogInfo ''Checking if ArgoSecret is out-of-sync with'',
                      LogInfo ''Updating out-of-sync ArgoSecret'',
                      Sent (std_request ''PUT'' (update_url cfg (merged ex a)) (authToken cfg)
                              (Some (json_Marshal e (merged ex a)))),
                      LogInfo ''Updated successfully of ArgoSecret'']))))"
  by (simp add: update_cluster_def sync_fields_eq sendRequest_eq Let_def
           split: option.splits sum.splits)

lemma requests_update_cluster_changed:
  "ClusterName ex \<noteq> ClusterName a \<or> CaData (tls ex) \<noteq> CaData (tls a) \<or>
   CertData (tls ex) \<noteq> CertData (tls a) \<Longrightarrow>
   requests_of (snd (update_cluster e cfg a ex)) =
     (case url_Parse e (update_url cfg (merged ex a)) of
        Some err \<Rightarrow> []
      | None \<Rightarrow> [std_request ''PUT'' (update_url cfg (merged ex a)) (authToken cfg)
                   (Some (json_Marshal e (merged ex a)))])"
  by (simp add: update_cluster_changed split: option.splits sum.splits)

lemma prepare_Inr:
  assumes "prepare e cfg nn s = (Inr (a, cl), evs)"
  shows "url_Parse e (clusters_url cfg) = None"
    and "requests_of evs = [list_request cfg]"
  using assms
  by (auto simp add: prepare_def list_registry_eq build_target_def Let_def
           split: option.splits sum.splits prod.splits)

section \<open>The stages of the inline revision\<close>

lemma gc_delete_inline_eq:
  "gc_delete_inline e cfg nn =
     (case url_Parse e (delete_url cfg nn) of
        Some err \<Rightarrow> (Return (Some err), [LogError err ''Error on deleting request object: ''])
      | None \<Rightarrow>
          (case Do e (std_request ''DELETE'' (delete_url cfg nn) (authToken cfg) None) of
             Inl err \<Rightarrow>
               (Return (Some err),
                [Sent (std_request ''DELETE'' (delete_url cfg nn) (authToken cfg) None),
                 LogError err ''Error on dispatching request''])
           | Inr resp \<Rightarrow>
               (Return None,
                [Sent (std_request ''DELETE'' (delete_url cfg nn) (authToken cfg) None),
                 if Status resp \<noteq> ''200 OK''
                 then LogError (ErrorsNew ''Error while updating'') ''Error while updating''
                 else LogInfo ''Deleted successfully of ArgoSecret''])))"
  by (simp add: gc_delete_inline_def build_request_eq split: option.splits sum.splits)

lemma gc_delete_requests:
  "requests_of (snd (gc_delete_inline e cfg nn)) = requests_of (snd (gc_delete e cfg nn))"
  by (simp add: gc_delete_inline_eq gc_delete_eq split: option.splits sum.splits)

lemma gc_delete_outcome:
  "\<forall>r resp. Do e r = Inr resp \<longrightarrow> (\<exists>b. ReadAll resp = Inr b) \<Longrightarrow>
   fst (gc_delete_inline e cfg nn) = fst (gc_delete e cfg nn)"
  by (fastforce simp add: gc_delete_inline_eq gc_delete_eq split: option.splits sum.splits)

lemma list_registry_inline_eq:
  "list_registry_inline e cfg =
     (case url_Parse e (clusters_url cfg) of
        Some err \<Rightarrow> (Inl (Return (Some err)), [LogError err ''Error on creating request object: ''])
      | None \<Rightarrow>
          (case Do e (list_request cfg) of
             Inl err \<Rightarrow>
               (Inl (Return (Some err)),
                [Sent (list_request cfg), LogError err ''Error on dispatching request''])
           | Inr resp \<Rightarrow>
               (case ReadAll resp of
                  Inl err \<Rightarrow>
                    (Inl (Return (Some err)),
                     [Sent (list_request cfg), LogError err ''Error reading response body: ''])
                | Inr bodyBytes \<Rightarrow>
                    (case json_Unmarshal e bodyBytes of
                       Inl err \<Rightarrow>
                         (Inl (Return (Some err)),
                          [Sent (list_request cfg), LogError err ''Error decoding JSON response''])
                     | Inr clusterList \<Rightarrow> (Inr clusterList, [Sent (list_request cfg)])))))"
  by (simp add: list_registry_inline_def build_request_eq list_request_def
           split: option.splits sum.splits)

lemma json_Unmarshal_nil: "json_Unmarshal e [] = Inl (SyntaxError ''unexpected end of JSON input'')"
  by (simp add: json_Unmarshal_def)

lemma list_registry_requests:
  "requests_of (snd (list_registry_inline e cfg)) = requests_of (snd (list_registry e cfg))"
  by (simp add: list_registry_inline_eq list_registry_eq json_Unmarshal_nil
           split: option.splits sum.splits)

lemma list_registry_outcome:
  "url_Parse e (clusters_url cfg) = None \<Longrightarrow> Do e (list_request cfg) = Inr resp \<Longrightarrow>
   ReadAll resp = Inr b \<Longrightarrow> list_registry_inline e cfg = list_registry e cfg"
  by (simp add: list_registry_inline_eq list_registry_eq split: option.splits sum.splits)

lemma create_cluster_inline_eq:
  "create_cluster_inline e cfg a =
     (case url_Parse e (clusters_url cfg) of
        Some err \<Rightarrow> (Return (Some err), [LogError err ''Error on creating request object: ''])
      | None \<Rightarrow>
          (case Do e (std_request ''POST'' (clusters_url cfg) (authToken cfg) (Some (json_Marshal e a))) of
             Inl err \<Rightarrow>
               (Return (Some err),
                [Sent (std_request ''POST'' (clusters_url cfg) (authToken cfg) (Some (json_Marshal e a))),
                 LogError err ''Error on dispatching request''])
           | Inr resp \<Rightarrow>
               (Return None,
                [Sent (std_request ''POST'' (clusters_url cfg) (authToken cfg) (Some (json_Marshal e a))),
                 LogInfo ''Created new ArgoSecret''])))"
  by (simp add: create_cluster_inline_def build_request_eq split: option.splits sum.splits)

lemma create_cluster_requests:
  "requests_of (snd (create_cluster_inline e cfg a)) = requests_of (snd (create_cluster e cfg a))"
  by (simp add: create_cluster_inline_eq create_cluster_eq split: option.splits sum.splits)

lemma create_cluster_outcome:
  "\<forall>u. url_Parse e u = None \<Longrightarrow>
   \<forall>r resp. Do e r = Inr resp \<longrightarrow> (\<exists>b. ReadAll resp = Inr b) \<Longrightarrow>
   fst (create_cluster_inline e cfg a) = fst (create_cluster e cfg a)"
  by (fastforce simp add: create_cluster_inline_eq create_cluster_eq split: option.splits sum.splits)

lemma update_cluster_inline_unchanged:
  "ClusterName ex = ClusterName a \<Longrightarrow> CaData (tls ex) = CaData (tls a) \<Longrightarrow>
   CertData (tls ex) = CertData (tls a) \<Longrightarrow>
   update_cluster_inline e cfg a ex =
     (Return None, [LogInfo ''Checking if ArgoSecret is out-of-sync with''])"
  by (simp add: update_cluster_inline_def sync_fields_eq)

lemma update_cluster_inline_changed:
  "ClusterName ex \<noteq> ClusterName a \<or> CaData (tls ex) \<noteq> CaData (tls a) \<or>
   CertData (tls ex) \<noteq> CertData (tls a) \<Longrightarrow>
   update_cluster_inline e cfg a ex =
     (case url_Parse e (update_url cfg (merged ex a)) of
        Some err \<Rightarrow>
          (Return (Some err),
           [LogInfo ''Checking if ArgoSecret is out-of-sync with'',
            LogInfo ''Updating out-of-sync ArgoSecret'',
            LogError err ''Error on creating request object: ''])
      | None \<Rightarrow>
          (case Do e (std_request ''PUT'' (update_url cfg (merged ex a)) (authToken cfg)
                        (Some (json_Marshal e (merged ex a)))) of
             Inl err \<Rightarrow>
               (Return (Some err),
                [LogInfo ''Checking if ArgoSecret is out-of-sync with'',
                 LogInfo ''Updating out-of-sync ArgoSecret'',
                 Sent (std_request ''PUT'' (update_url cfg (merged ex a)) (authToken cfg)
                         (Some (json_Marshal e (merged ex a)))),
                 LogError err ''Error on dispatching request''])
           | Inr resp \<Rightarrow>
               (Return None,
                [LogInfo ''Checking if ArgoSecret is out-of-sync with'',
                 LogInfo ''Updating out-of-sync ArgoSecret'',
                 Sent (std_request ''PUT'' (update_url cfg (merged ex a)) (authToken cfg)
                         (Some (json_Marshal e (merged ex a))))]
                @ (if Status resp \<noteq> ''200 OK''
                   then [LogError (ErrorsNew ''Error while updating'') ''Error while updating'']
                   else [])
                @ [LogInfo ''Updated successfully of ArgoSecret''])))"
  by (simp add: update_cluster_inline_def sync_fields_eq build_request_eq Let_def
           split: option.splits sum.splits)

lemma update_cluster_requests:
  "requests_of (snd (update_cluster_inline e cfg a ex)) = requests_of (snd (update_cluster e cfg a ex))"
proof (cases "ClusterName ex \<noteq> ClusterName a \<or> CaData (tls ex) \<noteq> CaData (tls a) \<or>
   CertData (tls ex) \<noteq> CertData (tls a)")
  case True
  then show ?thesis
    by (simp add: update_cluster_inline_changed update_cluster_changed
             split: option.splits sum.splits)
next
  case False
  then show ?thesis
    by (simp add: update_cluster_inline_unchanged update_cluster_unchanged)
qed

lemma update_cluster_outcome:
  assumes "\<forall>u. url_Parse e u = None"
    and "\<forall>r resp. Do e r = Inr resp \<longrightarrow> (\<exists>b. ReadAll resp = Inr b)"
  shows "fst (update_cluster_inline e cfg a ex) = fst (update_cluster e cfg a ex)"
proof (cases "ClusterName ex \<noteq> ClusterName a \<or> CaData (tls ex) \<noteq> CaData (tls a) \<or>
   CertData (tls ex) \<noteq> CertData (tls a)")
  case True
  then show ?thesis using assms
    by (fastforce simp add: update_cluster_inline_changed update_cluster_changed
             split: option.splits sum.splits)
next
  case False
  then show ?thesis
    by (simp add: update_cluster_inline_unchanged update_cluster_unchanged)
qed

lemma decide_requests:
  "requests_of (snd (decide_inline e cfg a cl)) = requests_of (snd (decide e cfg a cl))"
  by (simp add: decide_inline_def decide_def create_cluster_requests update_cluster_requests
           split: prod.splits bool.splits)

lemma decide_outcome:
  assumes "\<forall>u. url_Parse e u = None"
    and "\<forall>r resp. Do e r = Inr resp \<longrightarrow> (\<exists>b. ReadAll resp = Inr b)"
  shows "fst (decide_inline e cfg a cl) = fst (decide e cfg a cl)"
  using create_cluster_outcome [OF assms] update_cluster_outcome [OF assms]
  by (simp add: decide_inline_def decide_def split: prod.splits bool.splits)

section \<open>The two revisions side by side\<close>

lemma list_registry_Inr:
  "list_registry_inline e cfg = (Inr cl, evs) \<longleftrightarrow> list_registry e cfg = (Inr cl, evs)"
  by (auto simp add: list_registry_inline_eq list_registry_eq json_Unmarshal_nil
           split: option.splits sum.splits)

lemma prepare_Inr_iff:
  "prepare_inline e cfg nn s = (Inr x, evs) \<longleftrightarrow> prepare e cfg nn s = (Inr x, evs)"
proof (cases "build_target e cfg nn s")
  case (Pair r bevs)
  show ?thesis
  proof (cases r)
    case (Inl out)
    then show ?thesis by (simp add: prepare_inline_def prepare_def Pair)
  next
    case (Inr a)
    obtain r1 evs1 where l1: "list_registry_inline e cfg = (r1, evs1)" by (cases "list_registry_inline e cfg")
    obtain r2 evs2 where l2: "list_registry e cfg = (r2, evs2)" by (cases "list_registry e cfg")
    show ?thesis
      using list_registry_Inr [of e cfg] l1 l2
      by (cases r1; cases r2) (auto simp add: prepare_inline_def prepare_def Pair Inr)
  qed
qed

lemma prepare_requests:
  "requests_of (snd (prepare_inline e cfg nn s)) = requests_of (snd (prepare e cfg nn s))"
proof (cases "build_target e cfg nn s")
  case (Pair r bevs)
  show ?thesis
  proof (cases r)
    case (Inl out)
    then show ?thesis by (simp add: prepare_inline_def prepare_def Pair)
  next
    case (Inr a)
    obtain r1 evs1 where l1: "list_registry_inline e cfg = (r1, evs1)" by (cases "list_registry_inline e cfg")
    obtain r2 evs2 where l2: "list_registry e cfg = (r2, evs2)" by (cases "list_registry e cfg")
    have "requests_of evs1 = requests_of evs2"
      using list_registry_requests [of e cfg] by (simp add: l1 l2)
    then show ?thesis
      by (cases r1; cases r2) (simp_all add: prepare_inline_def prepare_def Pair Inr l1 l2)
  qed
qed

lemma prepare_outcome:
  assumes "url_Parse e (clusters_url cfg) = None" "Do e (list_request cfg) = Inr resp"
    "ReadAll resp = Inr b"
  shows "prepare_inline e cfg nn s = prepare e cfg nn s"
  unfolding prepare_inline_def prepare_def list_registry_outcome [OF assms] ..

lemma Reconcile_requests:
  "requests_of (snd (Reconcile_inline e cfg nn)) = requests_of (snd (Reconcile e cfg nn))"
proof (cases "ValidateCapiNaming e nn")
  case False
  then show ?thesis by (simp add: Reconcile_inline_def Reconcile_def)
next
  case True
  show ?thesis
  proof (cases "Get e nn")
    case (Found s)
    obtain r evs where p: "prepare e cfg nn s = (r, evs)" by (cases "prepare e cfg nn s")
    obtain r' evs' where p': "prepare_inline e cfg nn s = (r', evs')"
      by (cases "prepare_inline e cfg nn s")
    have req: "requests_of evs' = requests_of evs"
      using prepare_requests [of e cfg nn s] by (simp add: p p')
    show ?thesis
    proof (cases r)
      case (Inl out)
      have "\<exists>out'. r' = Inl out'"
        using prepare_Inr_iff [of e cfg nn s _ evs'] p p' Inl by (cases r') auto
      then show ?thesis
        using req by (auto simp add: Reconcile_inline_def Reconcile_def True Found p p' Inl)
    next
      case (Inr x)
      then have "prepare_inline e cfg nn s = (Inr x, evs)"
        using prepare_Inr_iff [of e cfg nn s x evs] p by simp
      then show ?thesis
        using decide_requests [of e cfg "fst x" "snd x"]
        by (cases x) (auto simp add: Reconcile_inline_def Reconcile_def True Found p Inr
                            split: prod.splits)
    qed
  next
    case NotFound
    then show ?thesis
      by (simp add: Reconcile_inline_def Reconcile_def True gc_delete_requests)
  next
    case (GetFailed err)
    then show ?thesis by (simp add: Reconcile_inline_def Reconcile_def True)
  qed
qed

lemma Reconcile_outcome:
  assumes urls: "\<forall>u. url_Parse e u = None"
    and bodies: "\<forall>r resp. Do e r = Inr resp \<longrightarrow> (\<exists>b. ReadAll resp = Inr b)"
    and listed: "Do e (list_request cfg) = Inr resp"
  shows "fst (Reconcile_inline e cfg nn) = fst (Reconcile e cfg nn)"
proof -
  obtain b where b: "ReadAll resp = Inr b" using bodies listed by blast
  have u: "url_Parse e (clusters_url cfg) = None" using urls by simp
  have prep: "prepare_inline e cfg nn s = prepare e cfg nn s" for s
    by (rule prepare_outcome [OF u listed b])
  show ?thesis
  proof (cases "Get e nn")
    case (Found s)
    obtain r evs where p: "prepare e cfg nn s = (r, evs)" by (cases "prepare e cfg nn s")
    show ?thesis
    proof (cases r)
      case (Inl out)
      then show ?thesis by (simp add: Reconcile_inline_def Reconcile_def Found prep p)
    next
      case (Inr x)
      obtain a cl where x: "x = (a, cl)" by (cases x)
      obtain o1 evs1 where d1: "decide_inline e cfg a cl = (o1, evs1)"
        by (cases "decide_inline e cfg a cl")
      obtain o2 evs2 where d2: "decide e cfg a cl = (o2, evs2)" by (cases "decide e cfg a cl")
      have "o1 = o2" using decide_outcome [OF urls bodies, of cfg a cl] by (simp add: d1 d2)
      then show ?thesis
        by (simp add: Reconcile_inline_def Reconcile_def Found prep p Inr x d1 d2)
    qed
  next
    case NotFound
    then show ?thesis
      using gc_delete_outcome [OF bodies, of cfg nn]
      by (simp add: Reconcile_inline_def Reconcile_def)
  next
    case (GetFailed err)
    then show ?thesis by (simp add: Reconcile_inline_def Reconcile_def)
  qed
qed

section \<open>Counting requests\<close>

lemma mutating_std_request:
  "mutating (std_request m u t b) = (m = ''POST'' \<or> m = ''PUT'' \<or> m = ''DELETE'')"
  by (simp add: mutating_def std_request_def)

lemma build_target_requests: "requests_of (snd (build_target e cfg nn s)) = []"
  by (simp add: build_target_def Let_def split: option.splits sum.splits)

lemma list_registry_requests_cases:
  "requests_of (snd (list_registry e cfg)) = [] \<or>
   requests_of (snd (list_registry e cfg)) = [list_request cfg]"
  by (simp add: list_registry_eq split: option.splits sum.splits)

lemma prepare_requests_cases:
  "requests_of (snd (prepare e cfg nn s)) = [] \<or>
   requests_of (snd (prepare e cfg nn s)) = [list_request cfg]"
proof -
  obtain r bevs where b: "build_target e cfg nn s = (r, bevs)" by (cases "build_target e cfg nn s")
  have b0: "requests_of bevs = []" using build_target_requests [of e cfg nn s] by (simp add: b)
  obtain r2 evs2 where l: "list_registry e cfg = (r2, evs2)" by (cases "list_registry e cfg")
  have "requests_of evs2 = [] \<or> requests_of evs2 = [list_request cfg]"
    using list_registry_requests_cases [of e cfg] by (simp add: l)
  then show ?thesis
    by (cases r; cases r2) (auto simp add: prepare_def b b0 l)
qed

lemma filter_mutating_prepare:
  "filter mutating (requests_of (snd (prepare e cfg nn s))) = []"
  using prepare_requests_cases [of e cfg nn s]
  by (auto simp add: list_request_def mutating_std_request)

lemma create_cluster_requests_le: "length (requests_of (snd (create_cluster e cfg a))) \<le> 1"
  by (simp add: create_cluster_eq split: option.splits sum.splits)

lemma update_cluster_requests_le: "length (requests_of (snd (update_cluster e cfg a ex))) \<le> 1"
proof (cases "ClusterName ex \<noteq> ClusterName a \<or> CaData (tls ex) \<noteq> CaData (tls a) \<or>
   CertData (tls ex) \<noteq> CertData (tls a)")
  case True
  then show ?thesis by (simp add: update_cluster_changed split: option.splits sum.splits)
next
  case False
  then show ?thesis by (simp add: update_cluster_unchanged)
qed

lemma decide_requests_le: "length (requests_of (snd (decide e cfg a cl))) \<le> 1"
  using create_cluster_requests_le [of e cfg a] update_cluster_requests_le [of e cfg a]
  by (auto simp add: decide_def split: prod.splits bool.splits)

lemma gc_delete_requests_le: "length (requests_of (snd (gc_delete e cfg nn))) \<le> 1"
  by (simp add: gc_delete_eq split: option.splits sum.splits)

lemma length_filter_le1: "length xs \<le> 1 \<Longrightarrow> length (filter P xs) \<le> 1"
  using length_filter_le [of P xs] by linarith

section \<open>Validation, naming and the example inputs\<close>

lemma validate_fields_Cons:
  "validate_fields (v # vs) =
     (if v = [] then Some (ErrorsNew ''missing key on ArgoTLS config'')
      else if \<not> decodes v then Some CorruptInputError
      else validate_fields vs)"
  by (simp add: decodes_def DecodeString_def split: option.splits)

lemma test_enc_eq: "test_enc = ''dGVzdA==''"
  by (simp add: test_enc_def encode_def encodeStd_def padChar_def)

lemma decodes_test_enc: "decodes test_enc"
  unfolding decodes_def DecodeString_def test_enc_def Decode_EncodeToString by simp

lemma decodes_non_valid: "\<not> decodes ''non-valid''"
  by (simp add: decodes_def DecodeString_def decodeMap_def encodeStd_def is_newline_def padChar_def)

lemma TrimSuffix_present: "TrimSuffix (x @ suffix) suffix = x"
  by (simp add: TrimSuffix_def)

lemma TrimSuffix_absent: "\<forall>x. s \<noteq> x @ suffix \<Longrightarrow> TrimSuffix s suffix = s"
proof -
  assume a: "\<forall>x. s \<noteq> x @ suffix"
  have "\<not> (length suffix \<le> length s \<and> drop (length s - length suffix) s = suffix)"
  proof
    assume h: "length suffix \<le> length s \<and> drop (length s - length suffix) s = suffix"
    have "s = take (length s - length suffix) s @ drop (length s - length suffix) s" by simp
    then have "s = take (length s - length suffix) s @ suffix" using h by simp
    then show False using a by blast
  qed
  then show ?thesis unfolding TrimSuffix_def by (simp only: if_False)
qed

lemma std_request_sel [simp]:
  "Method (std_request m u t b) = m"
  "URL (std_request m u t b) = u"
  "Body (std_request m u t b) = b"
  by (simp_all add: std_request_def)

lemma ex_env_simps [simp]:
  "ValidateCapiNaming (ex_env got capi do listing) nn = (TrimSuffix (Name nn) ''-kubeconfig'' \<noteq> Name nn)"
  "Get (ex_env got capi do listing) nn = got"
  "ValidateCapiSecret (ex_env got capi do listing) s =
     (if secret_Type s = ''cluster.x-k8s.io/secret'' then None else Some (Opaque ''wrong secret type''))"
  "Unmarshal (ex_env got capi do listing) c s = Inr capi"
  "url_Parse (ex_env got capi do listing) u = None"
  "Do (ex_env got capi do listing) = do"
  "json_Marshal (ex_env got capi do listing) = ex_Marshal"
  "json_decode (ex_env got capi do listing) bs = Inr \<lparr> Clusters = listing \<rparr>"
  by (simp_all add: ex_env_def)

lemma ex_naming: "ValidateCapiNaming (ex_env got capi do listing) ex_nn"
  by (simp add: ex_nn_def TrimSuffix_def)

lemma ex_build_target:
  "build_target (ex_env got (ex_capi ca cert key) do listing) (ex_cfg gc False) ex_nn ex_secret =
     (Inr (ex_target ca cert key), [LogInfo ''Fetched CapiSecret''])"
  by (simp add: build_target_def ex_secret_def ex_capi_def NewArgoCluster_def
        BuildNamespacedName_def BuildClusterName_def TrimSuffix_def ex_cfg_def ex_target_def
        GetArgoCommonLabels_def)

lemma ex_list_request_Do: "ex_Do st b (list_request cfg) = Inr \<lparr> Status = ''200 OK'', ReadAll = Inr [0x7B, 0x7D] \<rparr>"
  by (simp add: ex_Do_def list_request_def std_request_def)

lemma ex_prepare:
  "prepare (ex_env got (ex_capi ca cert key) (ex_Do st b) listing) (ex_cfg gc False) ex_nn ex_secret =
     (Inr (ex_target ca cert key, \<lparr> Clusters = listing \<rparr>),
      [LogInfo ''Fetched CapiSecret'', Sent (list_request (ex_cfg gc False))])"
  by (simp add: prepare_def ex_build_target list_registry_eq ex_list_request_Do json_Unmarshal_def)

lemma scan_exists:
  "fst (scan cs a (False, z)) =
     (filter (\<lambda>c. ClusterServer c = ClusterServer a
                 \<and> ClusterLabels c ''capi-to-argocd/owned'' = Some ''true'') cs \<noteq> [])"
  by (simp add: scan_last split: list.splits)

lemma Reconcile_decide:
  assumes "ValidateCapiNaming e nn" "Get e nn = Found s"
    and "prepare e cfg nn s = (Inr (a, cl), evs)"
  shows "Reconcile e cfg nn =
           (fst (decide e cfg a cl), evs @ snd (decide e cfg a cl))"
  using assms by (simp add: Reconcile_def split: prod.splits)

lemma prepare_raw:
  assumes "ValidateCapiSecret e s = None"
    and "Unmarshal e (NewCapiCluster e (TrimSuffix (Name nn) ''-kubeconfig'') (Namespace nn)) s = Inr c"
    and "NewArgoCluster cfg c s = Some a"
    and "url_Parse e (clusters_url cfg) = None"
    and "Do e (list_request cfg) = Inr resp"
    and "ReadAll resp = Inr body"
    and "json_Unmarshal e body = Inr cl"
  shows "prepare e cfg nn s =
           (Inr (a \<lparr> ClusterLabels := set_labels GetArgoCommonLabels (ClusterLabels a) \<rparr>, cl),
            [LogInfo ''Fetched CapiSecret'', Sent (list_request cfg)])"
  using assms by (simp add: prepare_def build_target_def list_registry_eq)

lemma NewArgoCluster_Some:
  assumes "NewArgoCluster cfg c s = Some a" and "kube_Clusters c = k # ks" and "kube_Users c = u # us"
  shows "tls a = \<lparr> CaData = kc_CaData k, CertData = ku_CertData u, KeyData = ku_KeyData u \<rparr>"
    and "ClusterServer a = kc_Server k"
  using assms by (auto simp add: NewArgoCluster_def tls_def)

lemma ex_NewArgoCluster:
  "NewArgoCluster (ex_cfg gc False) (ex_capi ca cert key) ex_secret =
     Some ((ex_target ca cert key)
             \<lparr> ClusterLabels :=
                 [''capi-to-argocd/cluster-secret-name'' \<mapsto> ''prod-kubeconfig'',
                  ''capi-to-argocd/cluster-namespace'' \<mapsto> ''team-a''] \<rparr>)"
  by (simp add: NewArgoCluster_def ex_capi_def ex_secret_def ex_target_def ex_cfg_def
        BuildNamespacedName_def BuildClusterName_def TrimSuffix_def)

lemma ex_target_labels:
  "(ex_target ca cert key)
     \<lparr> ClusterLabels :=
         set_labels GetArgoCommonLabels
           [''capi-to-argocd/cluster-secret-name'' \<mapsto> ''prod-kubeconfig'',
            ''capi-to-argocd/cluster-namespace'' \<mapsto> ''team-a''] \<rparr>
   = ex_target ca cert key"
  by (simp add: ex_target_def GetArgoCommonLabels_def)

lemma ex_delete_url:
  "delete_url (ex_cfg gc ns) ex_nn = ''https://argocd.example/api/v1/clusters/team-a?id.type=name''"
  by (simp add: delete_url_def ex_cfg_def ex_nn_def)

lemma ex_authToken: "authToken (ex_cfg gc ns) = ''t0ken''"
  by (simp add: ex_cfg_def)

lemma Reconcile_NotFound:
  assumes "ValidateCapiNaming e nn" and "Get e nn = NotFound"
  shows "Reconcile e cfg nn =
           (if EnableGarbageCollection cfg then gc_delete e cfg nn else (Return None, []))"
  using assms by (simp add: Reconcile_def)

lemma Reconcile_inline_NotFound:
  assumes "ValidateCapiNaming e nn" and "Get e nn = NotFound"
  shows "Reconcile_inline e cfg nn =
           (if EnableGarbageCollection cfg then gc_delete_inline e cfg nn else (Return None, []))"
  using assms by (simp add: Reconcile_inline_def)

lemma ex_Do_bodies:
  "\<forall>r resp. ex_Do st (Inr b) r = Inr resp \<longrightarrow> (\<exists>b. ReadAll resp = Inr b)"
  by (auto simp add: ex_Do_def split: if_splits)

lemma ex_Do_refused_bodies:
  "\<forall>r resp. ex_Do_refused r = Inr resp \<longrightarrow> (\<exists>b. ReadAll resp = Inr b)"
  by (auto simp add: ex_Do_refused_def split: if_splits)

lemma ex_list_request_Do_refused:
  "ex_Do_refused (list_request cfg) = Inr \<lparr> Status = ''200 OK'', ReadAll = Inr [0x7B, 0x7D] \<rparr>"
  by (simp add: ex_Do_refused_def list_request_def)


section \<open>The claims\<close>

text \<open>
  C1, as stated: a built target whose TLS fields are not all non-empty, valid base64 is
  never sent. Here the source cluster has no certificate and no key; the built target
  fails \<open>ValidateClusterTLSConfig\<close>, and the cycle sends it in a \<open>POST\<close>.
\<close>

theorem invalid_target_transmitted:
  "ValidateClusterTLSConfig (tls (ex_target test_enc [] []))
     = Some (ErrorsNew ''missing key on ArgoTLS config'')
   \<and> build_target
        (ex_env (Found ex_secret) (ex_capi test_enc [] []) (ex_Do ''200 OK'' (Inr [])) [])
        (ex_cfg False False) ex_nn ex_secret
     = (Inr (ex_target test_enc [] []), [LogInfo ''Fetched CapiSecret''])
   \<and> requests_of (snd (Reconcile
        (ex_env (Found ex_secret) (ex_capi test_enc [] []) (ex_Do ''200 OK'' (Inr [])) [])
        (ex_cfg False False) ex_nn))
     = [list_request (ex_cfg False False),
        std_request ''POST'' ''https://argocd.example/api/v1/clusters'' ''t0ken''
          (Some (ex_Marshal (ex_target test_enc [] [])))]"
proof -
  let ?e = "ex_env (Found ex_secret) (ex_capi test_enc [] []) (ex_Do ''200 OK'' (Inr [])) []"
  let ?cfg = "ex_cfg False False"
  have v: "ValidateClusterTLSConfig (tls (ex_target test_enc [] []))
     = Some (ErrorsNew ''missing key on ArgoTLS config'')"
    using decodes_test_enc
    by (simp add: ValidateClusterTLSConfig_def validate_fields_Cons test_enc_eq tls_def
          ex_target_def del: validate_fields.simps(2))
  have d: "decide ?e ?cfg (ex_target test_enc [] []) \<lparr> Clusters = [] \<rparr>
            = create_cluster ?e ?cfg (ex_target test_enc [] [])"
    by (simp add: decide_def)
  have u: "url_Parse ?e (clusters_url ?cfg) = None" by simp
  have g: "Get ?e ex_nn = Found ex_secret" by simp
  have r: "requests_of (snd (Reconcile ?e ?cfg ex_nn)) =
     [list_request ?cfg,
      std_request ''POST'' (clusters_url ?cfg) (authToken ?cfg)
        (Some (json_Marshal ?e (ex_target test_enc [] [])))]"
    using Reconcile_decide [OF ex_naming g ex_prepare [where gc = False]]
    by (simp add: d requests_create_cluster [OF u])
  have r': "requests_of (snd (Reconcile ?e ?cfg ex_nn)) =
     [list_request ?cfg,
      std_request ''POST'' ''https://argocd.example/api/v1/clusters'' ''t0ken''
        (Some (ex_Marshal (ex_target test_enc [] [])))]"
    using r by (simp add: clusters_url_def ex_cfg_def)
  show ?thesis
    using v r' ex_build_target [of "Found ex_secret" test_enc "[]" "[]" "ex_Do ''200 OK'' (Inr [])" "[]" False]
    by simp
qed

text \<open>
  C1, amended. \<open>Reconcile\<close> does not validate the TLS fields. Whenever a cycle fetches
  the secret, extracts a source cluster and lists the registry, and no entry of the
  listing has the target's server URL together with the ownership label, its requests
  are the listing and one \<open>POST\<close> whose body is the built target, with the CA data,
  certificate data and key data of the source cluster as they are. No hypothesis
  mentions \<open>ValidateClusterTLSConfig\<close>: the witness sends a CA field that is not base64.
\<close>

theorem target_is_posted_unvalidated:
  assumes "ValidateCapiNaming e nn" and "Get e nn = Found s"
    and "ValidateCapiSecret e s = None"
    and "Unmarshal e (NewCapiCluster e (TrimSuffix (Name nn) ''-kubeconfig'') (Namespace nn)) s = Inr c"
    and "kube_Clusters c = k # ks" and "kube_Users c = u # us"
    and "NewArgoCluster cfg c s = Some a"
    and "url_Parse e (clusters_url cfg) = None"
    and "Do e (list_request cfg) = Inr resp"
    and "ReadAll resp = Inr body"
    and "json_Unmarshal e body = Inr cl"
    and "\<forall>x \<in> set (Clusters cl). ClusterServer x = kc_Server k \<longrightarrow>
           ClusterLabels x ''capi-to-argocd/owned'' \<noteq> Some ''true''"
  shows "tls a = \<lparr> CaData = kc_CaData k, CertData = ku_CertData u, KeyData = ku_KeyData u \<rparr>
     \<and> requests_of (snd (Reconcile e cfg nn)) =
         [list_request cfg,
          std_request ''POST'' (clusters_url cfg) (authToken cfg)
            (Some (json_Marshal e
               (a \<lparr> ClusterLabels := set_labels GetArgoCommonLabels (ClusterLabels a) \<rparr>)))]"
proof -
  let ?a = "a \<lparr> ClusterLabels := set_labels GetArgoCommonLabels (ClusterLabels a) \<rparr>"
  have p: "prepare e cfg nn s = (Inr (?a, cl), [LogInfo ''Fetched CapiSecret'', Sent (list_request cfg)])"
    by (rule prepare_raw [OF assms(3,4,7-11)])
  have srv: "ClusterServer ?a = kc_Server k"
    using NewArgoCluster_Some(2) [OF assms(7,5,6)] by simp
  have "\<not> fst (scan (Clusters cl) ?a (False, zero_ArgoCluster))"
    using assms(12) by (simp add: scan_exists filter_empty_conv srv)
  then have d: "decide e cfg ?a cl = create_cluster e cfg ?a"
    by (cases "scan (Clusters cl) ?a (False, zero_ArgoCluster)") (simp add: decide_def)
  have "requests_of (snd (Reconcile e cfg nn)) =
         [list_request cfg,
          std_request ''POST'' (clusters_url cfg) (authToken cfg) (Some (json_Marshal e ?a))]"
    using Reconcile_decide [OF assms(1,2) p] by (simp add: d requests_create_cluster [OF assms(8)])
  then show ?thesis
    using NewArgoCluster_Some(1) [OF assms(7,5,6)] by simp
qed

theorem target_is_posted_unvalidated_witness:
  "ValidateClusterTLSConfig \<lparr> CaData = ''non-valid'', CertData = test_enc, KeyData = test_enc \<rparr>
     = Some CorruptInputError
   \<and> requests_of (snd (Reconcile
        (ex_env (Found ex_secret) (ex_capi ''non-valid'' test_enc test_enc)
           (ex_Do ''200 OK'' (Inr [])) [])
        (ex_cfg False False) ex_nn))
     = [list_request (ex_cfg False False),
        std_request ''POST'' ''https://argocd.example/api/v1/clusters'' ''t0ken''
          (Some (ex_Marshal (ex_target ''non-valid'' test_enc test_enc)))]"
proof -
  let ?e = "ex_env (Found ex_secret) (ex_capi ''non-valid'' test_enc test_enc)
           (ex_Do ''200 OK'' (Inr [])) []"
  let ?cfg = "ex_cfg False False"
  have h2: "Get ?e ex_nn = Found ex_secret" by simp
  have h3: "ValidateCapiSecret ?e ex_secret = None" by (simp add: ex_secret_def)
  have h4: "Unmarshal ?e (NewCapiCluster ?e (TrimSuffix (Name ex_nn) ''-kubeconfig'') (Namespace ex_nn))
              ex_secret = Inr (ex_capi ''non-valid'' test_enc test_enc)" by simp
  have h5: "kube_Clusters (ex_capi ''non-valid'' test_enc test_enc) =
              \<lparr> kc_Name = ''prod'', kc_Server = ''https://10.0.0.1:6443'', kc_CaData = ''non-valid'' \<rparr> # []"
    by (simp add: ex_capi_def)
  have h6: "kube_Users (ex_capi ''non-valid'' test_enc test_enc) =
              \<lparr> ku_CertData = test_enc, ku_KeyData = test_enc \<rparr> # []"
    by (simp add: ex_capi_def)
  have h8: "url_Parse ?e (clusters_url ?cfg) = None" by simp
  have h9: "Do ?e (list_request ?cfg) = Inr \<lparr> Status = ''200 OK'', ReadAll = Inr [0x7B, 0x7D] \<rparr>"
    by (simp add: ex_list_request_Do)
  have h10: "ReadAll \<lparr> Status = ''200 OK'', ReadAll = Inr [0x7B, 0x7D :: byte] \<rparr> = Inr [0x7B, 0x7D]"
    by simp
  have h11: "json_Unmarshal ?e [0x7B, 0x7D] = Inr \<lparr> Clusters = [] \<rparr>"
    by (simp add: json_Unmarshal_def)
  have h12: "\<forall>x \<in> set (Clusters \<lparr> Clusters = [] \<rparr>).
      ClusterServer x = kc_Server \<lparr> kc_Name = ''prod'', kc_Server = ''https://10.0.0.1:6443'', kc_CaData = ''non-valid'' \<rparr> \<longrightarrow>
      ClusterLabels x ''capi-to-argocd/owned'' \<noteq> Some ''true''"
    by simp
  have v: "ValidateClusterTLSConfig \<lparr> CaData = ''non-valid'', CertData = test_enc, KeyData = test_enc \<rparr>
     = Some CorruptInputError"
    using decodes_non_valid
    by (simp add: ValidateClusterTLSConfig_def validate_fields_Cons del: validate_fields.simps(2))
  have "requests_of (snd (Reconcile ?e ?cfg ex_nn)) =
         [list_request ?cfg,
          std_request ''POST'' (clusters_url ?cfg) (authToken ?cfg)
            (Some (json_Marshal ?e (ex_target ''non-valid'' test_enc test_enc)))]"
    using target_is_posted_unvalidated [OF ex_naming h2 h3 h4 h5 h6 ex_NewArgoCluster h8 h9 h10 h11 h12]
    by (simp add: ex_target_labels)
  then show ?thesis
    using v by (simp add: clusters_url_def ex_cfg_def)
qed

text \<open>
  C2, as stated: of several ownership-marked entries with the target's server URL the
  first of the listing is used. Here the first entry agrees with the target and the
  second has another name: the scan ends on the second and the cycle sends a \<open>PUT\<close>,
  where the first entry alone leads to no request after the listing.
\<close>

theorem scan_keeps_last_match:
  "scan [ex_entry ''prod'' [''capi-to-argocd/owned'' \<mapsto> ''true''] ''b2xk'',
         ex_entry ''stale'' [''capi-to-argocd/owned'' \<mapsto> ''true''] ''b2xk'']
     (ex_target test_enc test_enc ''bmV3'') (False, zero_ArgoCluster)
   = (True, ex_entry ''stale'' [''capi-to-argocd/owned'' \<mapsto> ''true''] ''b2xk'')
   \<and> ClusterName (ex_entry ''prod'' [''capi-to-argocd/owned'' \<mapsto> ''true''] ''b2xk'') = ''prod''
   \<and> ClusterName (ex_entry ''stale'' [''capi-to-argocd/owned'' \<mapsto> ''true''] ''b2xk'') = ''stale''
   \<and> map Method (requests_of (snd (Reconcile
        (ex_env (Found ex_secret) (ex_capi test_enc test_enc ''bmV3'') (ex_Do ''200 OK'' (Inr []))
           [ex_entry ''prod'' [''capi-to-argocd/owned'' \<mapsto> ''true''] ''b2xk'',
            ex_entry ''stale'' [''capi-to-argocd/owned'' \<mapsto> ''true''] ''b2xk''])
        (ex_cfg False False) ex_nn)))
     = [''GET'', ''PUT'']
   \<and> map Method (requests_of (snd (Reconcile
        (ex_env (Found ex_secret) (ex_capi test_enc test_enc ''bmV3'') (ex_Do ''200 OK'' (Inr []))
           [ex_entry ''prod'' [''capi-to-argocd/owned'' \<mapsto> ''true''] ''b2xk''])
        (ex_cfg False False) ex_nn)))
     = [''GET'']"
proof -
  let ?first = "ex_entry ''prod'' [''capi-to-argocd/owned'' \<mapsto> ''true''] ''b2xk''"
  let ?second = "ex_entry ''stale'' [''capi-to-argocd/owned'' \<mapsto> ''true''] ''b2xk''"
  let ?t = "ex_target test_enc test_enc ''bmV3''"
  let ?cfg = "ex_cfg False False"
  let ?e = "\<lambda>l. ex_env (Found ex_secret) (ex_capi test_enc test_enc ''bmV3'') (ex_Do ''200 OK'' (Inr [])) l"
  have g: "Get (?e l) ex_nn = Found ex_secret" for l by simp
  have s2: "scan [?first, ?second] ?t (False, zero_ArgoCluster) = (True, ?second)"
    by (simp add: ex_entry_def ex_target_def label_def)
  have s1: "scan [?first] ?t (False, zero_ArgoCluster) = (True, ?first)"
    by (simp add: ex_entry_def ex_target_def label_def)
  have differs: "ClusterName ?second \<noteq> ClusterName ?t"
    by (simp add: ex_entry_def ex_target_def)
  have agrees: "ClusterName ?first = ClusterName ?t" "CaData (tls ?first) = CaData (tls ?t)"
    "CertData (tls ?first) = CertData (tls ?t)"
    by (simp_all add: ex_entry_def ex_target_def tls_def)
  have d2: "decide (?e [?first, ?second]) ?cfg ?t \<lparr> Clusters = [?first, ?second] \<rparr>
              = update_cluster (?e [?first, ?second]) ?cfg ?t ?second"
    by (simp only: decide_def ClusterList.select_convs s2 prod.case bool.case)
  have d1: "decide (?e [?first]) ?cfg ?t \<lparr> Clusters = [?first] \<rparr>
              = update_cluster (?e [?first]) ?cfg ?t ?first"
    by (simp only: decide_def ClusterList.select_convs s1 prod.case bool.case)
  have r2: "map Method (requests_of (snd (Reconcile (?e [?first, ?second]) ?cfg ex_nn))) = [''GET'', ''PUT'']"
    using Reconcile_decide [OF ex_naming g ex_prepare [where gc = False]] differs
    by (simp add: d2 requests_update_cluster_changed list_request_def)
  have r1: "map Method (requests_of (snd (Reconcile (?e [?first]) ?cfg ex_nn))) = [''GET'']"
    using Reconcile_decide [OF ex_naming g ex_prepare [where gc = False]]
    by (simp add: d1 update_cluster_unchanged [OF agrees] list_request_def)
  have n: "ClusterName ?first = ''prod''" "ClusterName ?second = ''stale''"
    by (simp_all add: ex_entry_def)
  from s2 n r2 r1 show ?thesis by simp
qed

text \<open>
  C2, amended. When the listing has at least one ownership-marked entry with the
  target's server URL, the scan selects the last such entry of the listing, and that
  entry is the one diffed and updated.
\<close>

theorem scan_selects_last:
  assumes "c \<in> set cs" and "ClusterServer c = ClusterServer a"
    and "ClusterLabels c ''capi-to-argocd/owned'' = Some ''true''"
  shows "scan cs a (False, zero_ArgoCluster) =
           (True, last (filter (\<lambda>x. ClusterServer x = ClusterServer a
                                  \<and> ClusterLabels x ''capi-to-argocd/owned'' = Some ''true'') cs))
     \<and> decide e cfg a \<lparr> Clusters = cs \<rparr> =
           update_cluster e cfg a
             (last (filter (\<lambda>x. ClusterServer x = ClusterServer a
                              \<and> ClusterLabels x ''capi-to-argocd/owned'' = Some ''true'') cs))"
proof -
  let ?P = "\<lambda>x. ClusterServer x = ClusterServer a \<and> ClusterLabels x ''capi-to-argocd/owned'' = Some ''true''"
  have "c \<in> set (filter ?P cs)" using assms by simp
  then have ne: "filter ?P cs \<noteq> []" by (metis empty_iff list.set(1))
  have s: "scan cs a (False, zero_ArgoCluster) = (True, last (filter ?P cs))"
    using ne by (simp add: scan_last split: list.splits)
  show ?thesis
    by (simp only: decide_def ClusterList.select_convs s prod.case bool.case simp_thms)
qed

theorem scan_selects_last_witness:
  "scan [ex_entry ''prod'' [''capi-to-argocd/owned'' \<mapsto> ''true''] ''b2xk'',
         ex_entry ''theirs'' Map.empty ''b2xk'',
         ex_entry ''stale'' [''capi-to-argocd/owned'' \<mapsto> ''true''] ''b2xk'',
         ex_entry ''other'' [''capi-to-argocd/owned'' \<mapsto> ''false''] ''b2xk'']
     (ex_target test_enc test_enc ''bmV3'') (False, zero_ArgoCluster)
   = (True, ex_entry ''stale'' [''capi-to-argocd/owned'' \<mapsto> ''true''] ''b2xk'')"
proof -
  let ?first = "ex_entry ''prod'' [''capi-to-argocd/owned'' \<mapsto> ''true''] ''b2xk''"
  let ?second = "ex_entry ''stale'' [''capi-to-argocd/owned'' \<mapsto> ''true''] ''b2xk''"
  let ?cs = "[?first, ex_entry ''theirs'' Map.empty ''b2xk'', ?second,
              ex_entry ''other'' [''capi-to-argocd/owned'' \<mapsto> ''false''] ''b2xk'']"
  let ?t = "ex_target test_enc test_enc ''bmV3''"
  have h1: "?first \<in> set ?cs" by simp
  have h2: "ClusterServer ?first = ClusterServer ?t" by (simp add: ex_entry_def ex_target_def)
  have h3: "ClusterLabels ?first ''capi-to-argocd/owned'' = Some ''true''" by (simp add: ex_entry_def)
  have f: "filter (\<lambda>x. ClusterServer x = ClusterServer ?t
                       \<and> ClusterLabels x ''capi-to-argocd/owned'' = Some ''true'') ?cs
            = [?first, ?second]"
    by (simp add: ex_entry_def ex_target_def)
  show ?thesis
    using scan_selects_last [OF h1 h2 h3,
        of "ex_env (Found ex_secret) (ex_capi test_enc test_enc ''bmV3'') ex_Do_refused ?cs"
           "ex_cfg False False"]
    unfolding f by simp
qed

text \<open>
  C3. When the scan finds an ownership-marked entry for the target's server, exactly three
  fields are compared: the name, the CA data and the certificate data. If all three are
  equal the listing is the cycle's only request and the cycle returns nil, whatever the
  key data are. If one differs and the update URL parses, the cycle sends one \<open>PUT\<close>
  after the listing; the body of any \<open>PUT\<close> is the existing entry with those three
  fields taken from the target, and its key data, server, labels and identifier are the
  existing entry's.
\<close>

theorem update_overwrites_three_fields:
  assumes "ValidateCapiNaming e nn" and "Get e nn = Found s"
    and "prepare e cfg nn s = (Inr (a, cl), evs)"
    and "scan (Clusters cl) a (False, zero_ArgoCluster) = (True, ex)"
  shows
    "(ClusterName ex = ClusterName a \<and> CaData (tls ex) = CaData (tls a)
        \<and> CertData (tls ex) = CertData (tls a) \<longrightarrow>
      requests_of (snd (Reconcile e cfg nn)) = [list_request cfg]
        \<and> fst (Reconcile e cfg nn) = Return None)
     \<and> ((ClusterName ex \<noteq> ClusterName a \<or> CaData (tls ex) \<noteq> CaData (tls a)
           \<or> CertData (tls ex) \<noteq> CertData (tls a))
          \<and> url_Parse e (update_url cfg (merged ex a)) = None \<longrightarrow>
         requests_of (snd (Reconcile e cfg nn)) =
           [list_request cfg,
            std_request ''PUT'' (update_url cfg (merged ex a)) (authToken cfg)
              (Some (json_Marshal e (merged ex a)))])
     \<and> (\<forall>r \<in> set (requests_of (snd (Reconcile e cfg nn))).
           Method r = ''PUT'' \<longrightarrow> Body r = Some (json_Marshal e (merged ex a)))
     \<and> ClusterName (merged ex a) = ClusterName a
     \<and> CaData (tls (merged ex a)) = CaData (tls a)
     \<and> CertData (tls (merged ex a)) = CertData (tls a)
     \<and> KeyData (tls (merged ex a)) = KeyData (tls ex)
     \<and> ClusterServer (merged ex a) = ClusterServer ex
     \<and> ClusterLabels (merged ex a) = ClusterLabels ex
     \<and> NamespacedName (merged ex a) = NamespacedName ex"
proof -
  have rec: "Reconcile e cfg nn = (fst (update_cluster e cfg a ex), evs @ snd (update_cluster e cfg a ex))"
    using Reconcile_decide [OF assms(1-3)] assms(4) by (simp add: decide_def)
  have evs: "requests_of evs = [list_request cfg]" by (rule prepare_Inr(2) [OF assms(3)])
  have same: "ClusterName ex = ClusterName a \<and> CaData (tls ex) = CaData (tls a)
        \<and> CertData (tls ex) = CertData (tls a) \<longrightarrow>
      requests_of (snd (Reconcile e cfg nn)) = [list_request cfg]
        \<and> fst (Reconcile e cfg nn) = Return None"
    by (simp add: rec evs update_cluster_unchanged)
  have changed: "(ClusterName ex \<noteq> ClusterName a \<or> CaData (tls ex) \<noteq> CaData (tls a)
           \<or> CertData (tls ex) \<noteq> CertData (tls a))
          \<and> url_Parse e (update_url cfg (merged ex a)) = None \<longrightarrow>
         requests_of (snd (Reconcile e cfg nn)) =
           [list_request cfg,
            std_request ''PUT'' (update_url cfg (merged ex a)) (authToken cfg)
              (Some (json_Marshal e (merged ex a)))]"
    by (simp add: rec evs requests_update_cluster_changed)
  have puts: "\<forall>r \<in> set (requests_of (snd (Reconcile e cfg nn))).
           Method r = ''PUT'' \<longrightarrow> Body r = Some (json_Marshal e (merged ex a))"
  proof (cases "ClusterName ex \<noteq> ClusterName a \<or> CaData (tls ex) \<noteq> CaData (tls a)
           \<or> CertData (tls ex) \<noteq> CertData (tls a)")
    case True
    then show ?thesis
      by (simp add: rec evs requests_update_cluster_changed list_request_def std_request_def
               split: option.splits)
  next
    case False
    then show ?thesis
      by (simp add: rec evs update_cluster_unchanged list_request_def std_request_def)
  qed
  have frame: "ClusterName (merged ex a) = ClusterName a
     \<and> CaData (tls (merged ex a)) = CaData (tls a)
     \<and> CertData (tls (merged ex a)) = CertData (tls a)
     \<and> KeyData (tls (merged ex a)) = KeyData (tls ex)
     \<and> ClusterServer (merged ex a) = ClusterServer ex
     \<and> ClusterLabels (merged ex a) = ClusterLabels ex
     \<and> NamespacedName (merged ex a) = NamespacedName ex"
    by (simp add: merged_def tls_def)
  from same changed puts frame show ?thesis by blast
qed

theorem update_overwrites_three_fields_witness:
  "requests_of (snd (Reconcile
      (ex_env (Found ex_secret) (ex_capi test_enc test_enc ''bmV3'') (ex_Do ''200 OK'' (Inr []))
         [ex_entry ''stale'' [''capi-to-argocd/owned'' \<mapsto> ''true''] ''b2xk''])
      (ex_cfg False False) ex_nn))
   = [list_request (ex_cfg False False),
      std_request ''PUT'' ''https://argocd.example/api/v1/clusters/https%3A%2F%2F10.0.0.1%3A6443''
        ''t0ken''
        (Some (ex_Marshal
           (merged (ex_entry ''stale'' [''capi-to-argocd/owned'' \<mapsto> ''true''] ''b2xk'')
              (ex_target test_enc test_enc ''bmV3''))))]
   \<and> ClusterName (merged (ex_entry ''stale'' [''capi-to-argocd/owned'' \<mapsto> ''true''] ''b2xk'')
              (ex_target test_enc test_enc ''bmV3'')) = ''prod''
   \<and> KeyData (tls (merged (ex_entry ''stale'' [''capi-to-argocd/owned'' \<mapsto> ''true''] ''b2xk'')
              (ex_target test_enc test_enc ''bmV3''))) = ''b2xk''
   \<and> requests_of (snd (Reconcile
      (ex_env (Found ex_secret) (ex_capi test_enc test_enc ''bmV3'') (ex_Do ''200 OK'' (Inr []))
         [ex_entry ''prod'' [''capi-to-argocd/owned'' \<mapsto> ''true''] ''b2xk''])
      (ex_cfg False False) ex_nn))
   = [list_request (ex_cfg False False)]"
proof -
  let ?stale = "ex_entry ''stale'' [''capi-to-argocd/owned'' \<mapsto> ''true''] ''b2xk''"
  let ?same = "ex_entry ''prod'' [''capi-to-argocd/owned'' \<mapsto> ''true''] ''b2xk''"
  let ?t = "ex_target test_enc test_enc ''bmV3''"
  let ?e = "\<lambda>l. ex_env (Found ex_secret) (ex_capi test_enc test_enc ''bmV3'') (ex_Do ''200 OK'' (Inr [])) l"
  have g: "Get (?e l) ex_nn = Found ex_secret" for l by simp
  have s1: "scan (Clusters \<lparr> Clusters = [?stale] \<rparr>) ?t (False, zero_ArgoCluster) = (True, ?stale)"
    by (simp add: ex_entry_def ex_target_def label_def)
  have s2: "scan (Clusters \<lparr> Clusters = [?same] \<rparr>) ?t (False, zero_ArgoCluster) = (True, ?same)"
    by (simp add: ex_entry_def ex_target_def label_def)
  have url: "update_url (ex_cfg False False) (merged ?stale ?t)
               = ''https://argocd.example/api/v1/clusters/https%3A%2F%2F10.0.0.1%3A6443''"
    by (simp add: update_url_def merged_def ex_entry_def ex_cfg_def shouldEscape_def upperhex_def)
  have differs: "ClusterName ?stale \<noteq> ClusterName ?t"
    by (simp add: ex_entry_def ex_target_def)
  have agrees: "ClusterName ?same = ClusterName ?t \<and> CaData (tls ?same) = CaData (tls ?t)
        \<and> CertData (tls ?same) = CertData (tls ?t)"
    by (simp add: ex_entry_def ex_target_def tls_def)
  have parses: "url_Parse (?e [?stale]) (update_url (ex_cfg False False) (merged ?stale ?t)) = None"
    by simp
  have put: "requests_of (snd (Reconcile (?e [?stale]) (ex_cfg False False) ex_nn)) =
      [list_request (ex_cfg False False),
       std_request ''PUT'' (update_url (ex_cfg False False) (merged ?stale ?t))
         (authToken (ex_cfg False False)) (Some (json_Marshal (?e [?stale]) (merged ?stale ?t)))]"
    using update_overwrites_three_fields [OF ex_naming g ex_prepare [where gc = False] s1]
      differs parses by blast
  have noop: "requests_of (snd (Reconcile (?e [?same]) (ex_cfg False False) ex_nn)) =
      [list_request (ex_cfg False False)]"
    using update_overwrites_three_fields [OF ex_naming g ex_prepare [where gc = False] s2]
      agrees by blast
  have tok: "authToken (ex_cfg False False) = ''t0ken''" by (simp add: ex_cfg_def)
  have fields: "ClusterName (merged ?stale ?t) = ''prod''"
    "KeyData (tls (merged ?stale ?t)) = ''b2xk''"
    by (simp_all add: merged_def ex_entry_def ex_target_def tls_def)
  show ?thesis
    unfolding put noop url tok fields by simp
qed

text \<open>
  C4. The scan finds a match exactly when some entry of the listing has the target's
  server URL and the label \<open>capi-to-argocd/owned\<close> with value \<open>true\<close>. When every
  entry with the target's server URL lacks that label value, the cycle's requests are
  the listing and one \<open>POST\<close> of the built target: no \<open>PUT\<close>, and no entry of the
  listing is sent back.
\<close>

theorem unowned_entries_are_ignored:
  assumes "ValidateCapiNaming e nn" and "Get e nn = Found s"
    and "prepare e cfg nn s = (Inr (a, cl), evs)"
  shows
    "fst (scan (Clusters cl) a (False, zero_ArgoCluster)) =
       (\<exists>c \<in> set (Clusters cl). ClusterServer c = ClusterServer a
            \<and> ClusterLabels c ''capi-to-argocd/owned'' = Some ''true'')
     \<and> ((\<forall>c \<in> set (Clusters cl). ClusterServer c = ClusterServer a \<longrightarrow>
             ClusterLabels c ''capi-to-argocd/owned'' \<noteq> Some ''true'') \<longrightarrow>
         requests_of (snd (Reconcile e cfg nn)) =
           [list_request cfg,
            std_request ''POST'' (clusters_url cfg) (authToken cfg) (Some (json_Marshal e a))])"
proof -
  have iff: "fst (scan (Clusters cl) a (False, zero_ArgoCluster)) =
       (\<exists>c \<in> set (Clusters cl). ClusterServer c = ClusterServer a
            \<and> ClusterLabels c ''capi-to-argocd/owned'' = Some ''true'')"
    by (simp add: scan_exists filter_empty_conv)
  have evs: "requests_of evs = [list_request cfg]" by (rule prepare_Inr(2) [OF assms(3)])
  have url: "url_Parse e (clusters_url cfg) = None" by (rule prepare_Inr(1) [OF assms(3)])
  have post: "requests_of (snd (Reconcile e cfg nn)) =
           [list_request cfg,
            std_request ''POST'' (clusters_url cfg) (authToken cfg) (Some (json_Marshal e a))]"
    if none: "\<forall>c \<in> set (Clusters cl). ClusterServer c = ClusterServer a \<longrightarrow>
             ClusterLabels c ''capi-to-argocd/owned'' \<noteq> Some ''true''"
  proof -
    have "\<not> fst (scan (Clusters cl) a (False, zero_ArgoCluster))"
      using none unfolding iff by blast
    then have "decide e cfg a cl = create_cluster e cfg a"
      by (cases "scan (Clusters cl) a (False, zero_ArgoCluster)") (simp add: decide_def)
    then show ?thesis
      using Reconcile_decide [OF assms] by (simp add: evs requests_create_cluster [OF url])
  qed
  from iff post show ?thesis by blast
qed

theorem unowned_entries_are_ignored_witness:
  "requests_of (snd (Reconcile
      (ex_env (Found ex_secret) (ex_capi test_enc test_enc ''bmV3'') (ex_Do ''200 OK'' (Inr []))
         [ex_entry ''theirs'' Map.empty ''b2xk'',
          ex_entry ''other'' [''capi-to-argocd/owned'' \<mapsto> ''false''] ''b2xk''])
      (ex_cfg False False) ex_nn))
   = [list_request (ex_cfg False False),
      std_request ''POST'' ''https://argocd.example/api/v1/clusters'' ''t0ken''
        (Some (ex_Marshal (ex_target test_enc test_enc ''bmV3'')))]"
proof -
  let ?l = "[ex_entry ''theirs'' Map.empty ''b2xk'',
          ex_entry ''other'' [''capi-to-argocd/owned'' \<mapsto> ''false''] ''b2xk'']"
  let ?e = "ex_env (Found ex_secret) (ex_capi test_enc test_enc ''bmV3'') (ex_Do ''200 OK'' (Inr [])) ?l"
  have g: "Get ?e ex_nn = Found ex_secret" by simp
  have none: "\<forall>c \<in> set (Clusters \<lparr> Clusters = ?l \<rparr>).
      ClusterServer c = ClusterServer (ex_target test_enc test_enc ''bmV3'') \<longrightarrow>
      ClusterLabels c ''capi-to-argocd/owned'' \<noteq> Some ''true''"
    by (simp add: ex_entry_def)
  show ?thesis
    using unowned_entries_are_ignored [OF ex_naming g ex_prepare [where gc = False]] none
    by (simp add: clusters_url_def ex_cfg_def)
qed

text \<open>
  C5, as stated: a response to the \<open>DELETE\<close> other than 200 is logged. In the revision
  that calls \<open>sendRequest\<close> the status is never read: a 500 leaves the same events as a
  200, the request and the success line.
\<close>

theorem delete_status_not_logged:
  "Reconcile
     (ex_env NotFound (ex_capi test_enc test_enc test_enc)
        (ex_Do ''500 Internal Server Error'' (Inr [])) [])
     (ex_cfg True False) ex_nn
   = (Return None,
      [Sent (std_request ''DELETE'' ''https://argocd.example/api/v1/clusters/team-a?id.type=name''
               ''t0ken'' None),
       LogInfo ''Deleted successfully of ArgoSecret''])
   \<and> Reconcile
     (ex_env NotFound (ex_capi test_enc test_enc test_enc) (ex_Do ''200 OK'' (Inr [])) [])
     (ex_cfg True False) ex_nn
   = (Return None,
      [Sent (std_request ''DELETE'' ''https://argocd.example/api/v1/clusters/team-a?id.type=name''
               ''t0ken'' None),
       LogInfo ''Deleted successfully of ArgoSecret''])"
proof -
  have g: "Get (ex_env NotFound c d l) ex_nn = NotFound" for c d l by simp
  have on: "EnableGarbageCollection (ex_cfg True False)" by (simp add: ex_cfg_def)
  show ?thesis
    by (simp add: Reconcile_NotFound [OF ex_naming g] on gc_delete_eq ex_delete_url ex_authToken
          ex_Do_def)
qed

text \<open>
  C5, amended. In a cycle whose fetch reports not found: with garbage collection off
  there is no request, no log line and no error. With it on and a \<open>DELETE\<close> URL
  \<open>https://<endpoint>/api/v1/clusters/<namespace>?id.type=name\<close> that parses, exactly that
  one \<open>DELETE\<close> is sent. Any response whose body can be read, whatever its status, ends
  the cycle with the success line and nil; a transport or read failure is logged and
  returned; a URL that does not parse is logged and returned without a request. The
  revision with inline requests does read the status: it logs an error for a status
  other than \<open>200 OK\<close> and returns nil all the same.
\<close>

theorem gc_on_not_found:
  assumes "ValidateCapiNaming e nn" and "Get e nn = NotFound"
  shows
    "(\<not> EnableGarbageCollection cfg \<longrightarrow> Reconcile e cfg nn = (Return None, []))
     \<and> (EnableGarbageCollection cfg \<and> url_Parse e (delete_url cfg nn) = None \<longrightarrow>
          requests_of (snd (Reconcile e cfg nn)) =
            [std_request ''DELETE'' (delete_url cfg nn) (authToken cfg) None])
     \<and> (EnableGarbageCollection cfg \<and> url_Parse e (delete_url cfg nn) = None
          \<and> Do e (std_request ''DELETE'' (delete_url cfg nn) (authToken cfg) None) = Inr resp
          \<and> ReadAll resp = Inr body \<longrightarrow>
          Reconcile e cfg nn =
            (Return None,
             [Sent (std_request ''DELETE'' (delete_url cfg nn) (authToken cfg) None),
              LogInfo ''Deleted successfully of ArgoSecret'']))
     \<and> (EnableGarbageCollection cfg \<and> url_Parse e (delete_url cfg nn) = None
          \<and> (Do e (std_request ''DELETE'' (delete_url cfg nn) (authToken cfg) None) = Inl err
              \<or> Do e (std_request ''DELETE'' (delete_url cfg nn) (authToken cfg) None) = Inr resp
                 \<and> ReadAll resp = Inl err) \<longrightarrow>
          Reconcile e cfg nn =
            (Return (Some err),
             [Sent (std_request ''DELETE'' (delete_url cfg nn) (authToken cfg) None),
              LogError err ''Error on reconcile/delete'']))
     \<and> (EnableGarbageCollection cfg \<and> url_Parse e (delete_url cfg nn) = Some err \<longrightarrow>
          Reconcile e cfg nn = (Return (Some err), [LogError err ''Error on reconcile/delete'']))
     \<and> (EnableGarbageCollection cfg \<and> url_Parse e (delete_url cfg nn) = None
          \<and> Do e (std_request ''DELETE'' (delete_url cfg nn) (authToken cfg) None) = Inr resp \<longrightarrow>
          Reconcile_inline e cfg nn =
            (Return None,
             [Sent (std_request ''DELETE'' (delete_url cfg nn) (authToken cfg) None),
              if Status resp \<noteq> ''200 OK''
              then LogError (ErrorsNew ''Error while updating'') ''Error while updating''
              else LogInfo ''Deleted successfully of ArgoSecret'']))
     \<and> delete_url cfg nn =
          ''https://'' @ ArgoEndpoint cfg @ ''/api/v1/clusters/'' @ Namespace nn @ ''?id.type=name''"
proof -
  have url: "delete_url cfg nn =
          ''https://'' @ ArgoEndpoint cfg @ ''/api/v1/clusters/'' @ Namespace nn @ ''?id.type=name''"
    by (simp add: delete_url_def)
  have rest: "(\<not> EnableGarbageCollection cfg \<longrightarrow> Reconcile e cfg nn = (Return None, []))
     \<and> (EnableGarbageCollection cfg \<and> url_Parse e (delete_url cfg nn) = None \<longrightarrow>
          requests_of (snd (Reconcile e cfg nn)) =
            [std_request ''DELETE'' (delete_url cfg nn) (authToken cfg) None])
     \<and> (EnableGarbageCollection cfg \<and> url_Parse e (delete_url cfg nn) = None
          \<and> Do e (std_request ''DELETE'' (delete_url cfg nn) (authToken cfg) None) = Inr resp
          \<and> ReadAll resp = Inr body \<longrightarrow>
          Reconcile e cfg nn =
            (Return None,
             [Sent (std_request ''DELETE'' (delete_url cfg nn) (authToken cfg) None),
              LogInfo ''Deleted successfully of ArgoSecret'']))
     \<and> (EnableGarbageCollection cfg \<and> url_Parse e (delete_url cfg nn) = None
          \<and> (Do e (std_request ''DELETE'' (delete_url cfg nn) (authToken cfg) None) = Inl err
              \<or> Do e (std_request ''DELETE'' (delete_url cfg nn) (authToken cfg) None) = Inr resp
                 \<and> ReadAll resp = Inl err) \<longrightarrow>
          Reconcile e cfg nn =
            (Return (Some err),
             [Sent (std_request ''DELETE'' (delete_url cfg nn) (authToken cfg) None),
              LogError err ''Error on reconcile/delete'']))
     \<and> (EnableGarbageCollection cfg \<and> url_Parse e (delete_url cfg nn) = Some err \<longrightarrow>
          Reconcile e cfg nn = (Return (Some err), [LogError err ''Error on reconcile/delete'']))"
    by (auto simp add: Reconcile_NotFound [OF assms] gc_delete_eq split: sum.splits)
  have inline: "EnableGarbageCollection cfg \<and> url_Parse e (delete_url cfg nn) = None
          \<and> Do e (std_request ''DELETE'' (delete_url cfg nn) (authToken cfg) None) = Inr resp \<longrightarrow>
          Reconcile_inline e cfg nn =
            (Return None,
             [Sent (std_request ''DELETE'' (delete_url cfg nn) (authToken cfg) None),
              if Status resp \<noteq> ''200 OK''
              then LogError (ErrorsNew ''Error while updating'') ''Error while updating''
              else LogInfo ''Deleted successfully of ArgoSecret''])"
    using assms by (simp add: Reconcile_inline_def gc_delete_inline_eq)
  from rest inline url show ?thesis by blast
qed

theorem gc_on_not_found_witness:
  "Reconcile
     (ex_env NotFound (ex_capi test_enc test_enc test_enc)
        (ex_Do ''404 Not Found'' (Inr [])) [])
     (ex_cfg True False) ex_nn
   = (Return None,
      [Sent (std_request ''DELETE'' ''https://argocd.example/api/v1/clusters/team-a?id.type=name''
               ''t0ken'' None),
       LogInfo ''Deleted successfully of ArgoSecret''])
   \<and> Reconcile
     (ex_env NotFound (ex_capi test_enc test_enc test_enc) (ex_Do ''404 Not Found'' (Inr [])) [])
     (ex_cfg False False) ex_nn
   = (Return None, [])
   \<and> Reconcile
     (ex_env NotFound (ex_capi test_enc test_enc test_enc) ex_Do_refused [])
     (ex_cfg True False) ex_nn
   = (Return (Some (Opaque ''connection refused'')),
      [Sent (std_request ''DELETE'' ''https://argocd.example/api/v1/clusters/team-a?id.type=name''
               ''t0ken'' None),
       LogError (Opaque ''connection refused'') ''Error on reconcile/delete''])
   \<and> Reconcile_inline
     (ex_env NotFound (ex_capi test_enc test_enc test_enc)
        (ex_Do ''404 Not Found'' (Inr [])) [])
     (ex_cfg True False) ex_nn
   = (Return None,
      [Sent (std_request ''DELETE'' ''https://argocd.example/api/v1/clusters/team-a?id.type=name''
               ''t0ken'' None),
       LogError (ErrorsNew ''Error while updating'') ''Error while updating''])"
proof -
  let ?e = "ex_env NotFound (ex_capi test_enc test_enc test_enc) (ex_Do ''404 Not Found'' (Inr [])) []"
  let ?r = "ex_env NotFound (ex_capi test_enc test_enc test_enc) ex_Do_refused []"
  let ?del = "std_request ''DELETE'' ''https://argocd.example/api/v1/clusters/team-a?id.type=name''
               ''t0ken'' None"
  have g: "Get ?e ex_nn = NotFound" "Get ?r ex_nn = NotFound" by simp_all
  have on: "EnableGarbageCollection (ex_cfg True False)" "\<not> EnableGarbageCollection (ex_cfg False False)"
    by (simp_all add: ex_cfg_def)
  have u: "url_Parse ?e (delete_url (ex_cfg True False) ex_nn) = None"
    "url_Parse ?r (delete_url (ex_cfg True False) ex_nn) = None" by simp_all
  have d: "Do ?e (std_request ''DELETE'' (delete_url (ex_cfg True False) ex_nn)
                    (authToken (ex_cfg True False)) None)
             = Inr \<lparr> Status = ''404 Not Found'', ReadAll = Inr [] \<rparr>"
    by (simp add: ex_Do_def)
  have b: "ReadAll \<lparr> Status = ''404 Not Found'', ReadAll = (Inr [] :: error + byte list) \<rparr> = Inr []"
    by simp
  have dr: "Do ?r (std_request ''DELETE'' (delete_url (ex_cfg True False) ex_nn)
                    (authToken (ex_cfg True False)) None)
             = Inl (Opaque ''connection refused'')"
    by (simp add: ex_Do_refused_def)
  have 1: "Reconcile ?e (ex_cfg True False) ex_nn
             = (Return None,
                [Sent (std_request ''DELETE'' (delete_url (ex_cfg True False) ex_nn)
                         (authToken (ex_cfg True False)) None),
                 LogInfo ''Deleted successfully of ArgoSecret''])"
    using gc_on_not_found [OF ex_naming g(1), of "ex_cfg True False"
        "\<lparr> Status = ''404 Not Found'', ReadAll = Inr [] \<rparr>" "[]"] on(1) u(1) d b
    by blast
  have 2: "Reconcile ?e (ex_cfg False False) ex_nn = (Return None, [])"
    using gc_on_not_found [OF ex_naming g(1), of "ex_cfg False False"] on(2) by blast
  have 3: "Reconcile ?r (ex_cfg True False) ex_nn
             = (Return (Some (Opaque ''connection refused'')),
                [Sent (std_request ''DELETE'' (delete_url (ex_cfg True False) ex_nn)
                         (authToken (ex_cfg True False)) None),
                 LogError (Opaque ''connection refused'') ''Error on reconcile/delete''])"
    using gc_on_not_found [OF ex_naming g(2), of "ex_cfg True False" _ _ "Opaque ''connection refused''"]
      on(1) u(2) dr
    by blast
  have 4: "Reconcile_inline ?e (ex_cfg True False) ex_nn
             = (Return None,
                [Sent (std_request ''DELETE'' (delete_url (ex_cfg True False) ex_nn)
                         (authToken (ex_cfg True False)) None),
                 if Status \<lparr> Status = ''404 Not Found'', ReadAll = (Inr [] :: error + byte list) \<rparr>
                      \<noteq> ''200 OK''
                 then LogError (ErrorsNew ''Error while updating'') ''Error while updating''
                 else LogInfo ''Deleted successfully of ArgoSecret''])"
    using gc_on_not_found [OF ex_naming g(1), of "ex_cfg True False"
        "\<lparr> Status = ''404 Not Found'', ReadAll = Inr [] \<rparr>"] on(1) u(1) d
    by blast
  show ?thesis
    using 1 2 3 4 unfolding ex_delete_url ex_authToken by simp
qed

text \<open>
  C6. On every input and every path, one cycle hands at most one mutating request
  (\<open>POST\<close>, \<open>PUT\<close> or \<open>DELETE\<close>) to the HTTP client, in either revision.
\<close>

theorem at_most_one_mutation:
  "length (filter mutating (requests_of (snd (Reconcile e cfg nn)))) \<le> 1 \<and>
   length (filter mutating (requests_of (snd (Reconcile_inline e cfg nn)))) \<le> 1"
proof -
  have main: "length (filter mutating (requests_of (snd (Reconcile e cfg nn)))) \<le> 1"
  proof (cases "ValidateCapiNaming e nn")
    case False
    then show ?thesis by (simp add: Reconcile_def)
  next
    case True
    show ?thesis
    proof (cases "Get e nn")
      case (Found s)
      obtain r evs where p: "prepare e cfg nn s = (r, evs)" by (cases "prepare e cfg nn s")
      have f0: "filter mutating (requests_of evs) = []"
        using filter_mutating_prepare [of e cfg nn s] by (simp add: p)
      show ?thesis
      proof (cases r)
        case (Inl out)
        then show ?thesis by (simp add: Reconcile_def True Found p f0)
      next
        case (Inr x)
        obtain a cl where x: "x = (a, cl)" by (cases x)
        obtain out evs' where d: "decide e cfg a cl = (out, evs')" by (cases "decide e cfg a cl")
        have "length (requests_of evs') \<le> 1" using decide_requests_le [of e cfg a cl] by (simp add: d)
        then have "length (filter mutating (requests_of evs')) \<le> 1" by (rule length_filter_le1)
        then show ?thesis by (simp add: Reconcile_def True Found p Inr x d f0)
      qed
    next
      case NotFound
      then show ?thesis
        using length_filter_le1 [OF gc_delete_requests_le [of e cfg nn], of mutating]
        by (simp add: Reconcile_def True)
    next
      case (GetFailed err)
      then show ?thesis by (simp add: Reconcile_def True)
    qed
  qed
  then show ?thesis by (simp add: Reconcile_requests)
qed

text \<open>
  C7. \<open>ValidateClusterTLSConfig\<close> looks at the CA data, then the certificate data, then
  the key data, and stops at the first field that fails: an empty field gives the
  missing-key error, a non-empty field that does not decode as standard base64 gives
  the decoder's error. It returns nil exactly when all three fields are non-empty and
  decode. It is a function of its argument only.
\<close>

theorem ValidateClusterTLSConfig_order:
  "ValidateClusterTLSConfig a =
     (if CaData a = [] then Some (ErrorsNew ''missing key on ArgoTLS config'')
      else if \<not> decodes (CaData a) then Some CorruptInputError
      else if CertData a = [] then Some (ErrorsNew ''missing key on ArgoTLS config'')
      else if \<not> decodes (CertData a) then Some CorruptInputError
      else if KeyData a = [] then Some (ErrorsNew ''missing key on ArgoTLS config'')
      else if \<not> decodes (KeyData a) then Some CorruptInputError
      else None)
   \<and> ((ValidateClusterTLSConfig a = None) =
        (CaData a \<noteq> [] \<and> decodes (CaData a) \<and> CertData a \<noteq> [] \<and> decodes (CertData a)
         \<and> KeyData a \<noteq> [] \<and> decodes (KeyData a)))"
  by (simp add: ValidateClusterTLSConfig_def validate_fields_Cons del: validate_fields.simps(2))

theorem ValidateClusterTLSConfig_order_witness:
  "ValidateClusterTLSConfig \<lparr> CaData = test_enc, CertData = test_enc, KeyData = test_enc \<rparr> = None
   \<and> ValidateClusterTLSConfig \<lparr> CaData = ''non-valid'', CertData = test_enc, KeyData = test_enc \<rparr>
       = Some CorruptInputError
   \<and> ValidateClusterTLSConfig \<lparr> CaData = test_enc, CertData = [], KeyData = [] \<rparr>
       = Some (ErrorsNew ''missing key on ArgoTLS config'')
   \<and> ValidateClusterTLSConfig \<lparr> CaData = [], CertData = [], KeyData = [] \<rparr>
       = Some (ErrorsNew ''missing key on ArgoTLS config'')
   \<and> ValidateClusterTLSConfig \<lparr> CaData = [], CertData = ''non-valid'', KeyData = test_enc \<rparr>
       = Some (ErrorsNew ''missing key on ArgoTLS config'')
   \<and> ValidateClusterTLSConfig \<lparr> CaData = test_enc, CertData = ''non-valid'', KeyData = [] \<rparr>
       = Some CorruptInputError"
  using ValidateClusterTLSConfig_order [of "\<lparr> CaData = test_enc, CertData = test_enc, KeyData = test_enc \<rparr>"]
    ValidateClusterTLSConfig_order [of "\<lparr> CaData = ''non-valid'', CertData = test_enc, KeyData = test_enc \<rparr>"]
    ValidateClusterTLSConfig_order [of "\<lparr> CaData = test_enc, CertData = [], KeyData = [] \<rparr>"]
    ValidateClusterTLSConfig_order [of "\<lparr> CaData = [], CertData = [], KeyData = [] \<rparr>"]
    ValidateClusterTLSConfig_order [of "\<lparr> CaData = [], CertData = ''non-valid'', KeyData = test_enc \<rparr>"]
    ValidateClusterTLSConfig_order [of "\<lparr> CaData = test_enc, CertData = ''non-valid'', KeyData = [] \<rparr>"]
    decodes_test_enc decodes_non_valid
  by (simp add: test_enc_eq)

text \<open>
  C8, as stated: validating the encodings of arbitrary byte strings succeeds. It fails
  for the empty byte string, whose encoding is the empty string.
\<close>

theorem encode_then_validate_counterexample:
  "ValidateClusterTLSConfig
     \<lparr> CaData = EncodeToString [], CertData = EncodeToString [0x74, 0x65, 0x73, 0x74],
       KeyData = EncodeToString [0x74, 0x65, 0x73, 0x74] \<rparr>
   = Some (ErrorsNew ''missing key on ArgoTLS config'')"
  by (simp add: ValidateClusterTLSConfig_def)

text \<open>
  C8, amended. Validating a configuration whose three fields are the standard base64
  encodings of byte strings \<open>a\<close>, \<open>b\<close> and \<open>c\<close> succeeds exactly when none of the
  three byte strings is empty.
\<close>

theorem encode_then_validate:
  "(ValidateClusterTLSConfig
      \<lparr> CaData = EncodeToString a, CertData = EncodeToString b, KeyData = EncodeToString c \<rparr> = None)
   = (a \<noteq> [] \<and> b \<noteq> [] \<and> c \<noteq> [])"
  by (simp add: ValidateClusterTLSConfig_def DecodeString_def
        Decode_EncodeToString EncodeToString_empty)

theorem encode_then_validate_witness:
  "ValidateClusterTLSConfig
     \<lparr> CaData = EncodeToString [0x74, 0x65, 0x73, 0x74], CertData = EncodeToString [0x63],
       KeyData = EncodeToString [0x6B, 0x65] \<rparr> = None"
  using encode_then_validate [of "[0x74, 0x65, 0x73, 0x74]" "[0x63]" "[0x6B, 0x65]"]
  by simp

text \<open>
  C9. \<open>BuildNamespacedName\<close> removes one trailing \<open>-kubeconfig\<close> from the secret's
  name (what is left may itself end in \<open>-kubeconfig\<close> or contain hyphens), leaves a
  name without that suffix as it is, puts the namespace and a hyphen in front when
  namespaced names are enabled, then \<open>cluster-\<close> in front of that, and returns the
  configured Argo namespace as the namespace.
\<close>

theorem BuildNamespacedName_strips_once:
  "BuildNamespacedName cfg (x @ ''-kubeconfig'') ns =
     \<lparr> Namespace = ArgoNamespace cfg,
       Name = ''cluster-'' @ (if EnableNamespacedNames cfg then ns @ ''-'' @ x else x) \<rparr>
   \<and> ((\<forall>y. s \<noteq> y @ ''-kubeconfig'') \<longrightarrow>
        BuildNamespacedName cfg s ns =
          \<lparr> Namespace = ArgoNamespace cfg,
            Name = ''cluster-'' @ (if EnableNamespacedNames cfg then ns @ ''-'' @ s else s) \<rparr>)"
  using TrimSuffix_present [of x "''-kubeconfig''"] TrimSuffix_absent [of s "''-kubeconfig''"]
  by (simp add: BuildNamespacedName_def BuildClusterName_def)

theorem BuildNamespacedName_strips_once_witness:
  "BuildNamespacedName (ex_cfg False False) ''prod-kubeconfig'' ''team-a''
     = \<lparr> Namespace = ''argocd'', Name = ''cluster-prod'' \<rparr>
   \<and> BuildNamespacedName (ex_cfg False True) ''prod-kubeconfig'' ''team-a''
     = \<lparr> Namespace = ''argocd'', Name = ''cluster-team-a-prod'' \<rparr>
   \<and> BuildNamespacedName (ex_cfg False False) ''test-XXX-kubeconfig-kubeconfig'' ''test-ns''
     = \<lparr> Namespace = ''argocd'', Name = ''cluster-test-XXX-kubeconfig'' \<rparr>
   \<and> BuildNamespacedName (ex_cfg False False) ''capi-XXX'' ''test-ns''
     = \<lparr> Namespace = ''argocd'', Name = ''cluster-capi-XXX'' \<rparr>"
proof -
  have absent: "\<forall>y. ''capi-XXX'' \<noteq> y @ ''-kubeconfig''"
  proof
    fix y :: string
    show "''capi-XXX'' \<noteq> y @ ''-kubeconfig''"
    proof
      assume "''capi-XXX'' = y @ ''-kubeconfig''"
      then have "length ''capi-XXX'' = length (y @ ''-kubeconfig'')" by (rule arg_cong)
      then show False by simp
    qed
  qed
  show ?thesis
    using BuildNamespacedName_strips_once [of "ex_cfg False False" "''prod''" "''team-a''" "''capi-XXX''"]
      BuildNamespacedName_strips_once [of "ex_cfg False True" "''prod''" "''team-a''" "''capi-XXX''"]
      BuildNamespacedName_strips_once [of "ex_cfg False False" "''test-XXX-kubeconfig''" "''test-ns''" "''capi-XXX''"]
      BuildNamespacedName_strips_once [of "ex_cfg False False" "''prod''" "''test-ns''" "''capi-XXX''"]
      absent
    by (simp add: ex_cfg_def)
qed

text \<open>
  C10, as stated: the two revisions return the same error on every input. Two inputs
  where they do not. The \<open>DELETE\<close> is answered with \<open>200 OK\<close> and a body that cannot be
  read: the inline revision never reads it and returns nil, \<open>sendRequest\<close> reads it and
  the cycle returns the read error. The registry cannot be reached for the listing: the
  inline revision returns the transport error, the other one drops it and returns the
  syntax error of decoding an empty body.
\<close>

theorem revisions_return_different_errors:
  "fst (Reconcile_inline
          (ex_env NotFound (ex_capi test_enc test_enc test_enc)
             (ex_Do ''200 OK'' (Inl (Opaque ''unexpected EOF''))) [])
          (ex_cfg True False) ex_nn)
     = Return None
   \<and> fst (Reconcile
          (ex_env NotFound (ex_capi test_enc test_enc test_enc)
             (ex_Do ''200 OK'' (Inl (Opaque ''unexpected EOF''))) [])
          (ex_cfg True False) ex_nn)
     = Return (Some (Opaque ''unexpected EOF''))
   \<and> fst (Reconcile_inline
          (ex_env (Found ex_secret) (ex_capi test_enc test_enc test_enc) ex_Do_down [])
          (ex_cfg True False) ex_nn)
     = Return (Some (Opaque ''connection refused''))
   \<and> fst (Reconcile
          (ex_env (Found ex_secret) (ex_capi test_enc test_enc test_enc) ex_Do_down [])
          (ex_cfg True False) ex_nn)
     = Return (Some (SyntaxError ''unexpected end of JSON input''))"
proof -
  have g: "Get (ex_env NotFound c d l) ex_nn = NotFound" for c d l by simp
  have on: "EnableGarbageCollection (ex_cfg True False)" by (simp add: ex_cfg_def)
  have unread: "fst (Reconcile_inline
          (ex_env NotFound (ex_capi test_enc test_enc test_enc)
             (ex_Do ''200 OK'' (Inl (Opaque ''unexpected EOF''))) [])
          (ex_cfg True False) ex_nn)
     = Return None
   \<and> fst (Reconcile
          (ex_env NotFound (ex_capi test_enc test_enc test_enc)
             (ex_Do ''200 OK'' (Inl (Opaque ''unexpected EOF''))) [])
          (ex_cfg True False) ex_nn)
     = Return (Some (Opaque ''unexpected EOF''))"
    by (simp add: Reconcile_NotFound [OF ex_naming g] Reconcile_inline_NotFound [OF ex_naming g]
          on gc_delete_eq gc_delete_inline_eq ex_Do_def)
  let ?d = "ex_env (Found ex_secret) (ex_capi test_enc test_enc test_enc) ex_Do_down []"
  have n: "ValidateCapiNaming ?d ex_nn" by (rule ex_naming)
  have down1: "fst (Reconcile_inline ?d (ex_cfg True False) ex_nn)
                 = Return (Some (Opaque ''connection refused''))"
    using n
    by (simp add: Reconcile_inline_def prepare_inline_def ex_build_target
          list_registry_inline_eq ex_Do_down_def)
  have down2: "fst (Reconcile ?d (ex_cfg True False) ex_nn)
                 = Return (Some (SyntaxError ''unexpected end of JSON input''))"
    using n
    by (simp add: Reconcile_def prepare_def ex_build_target list_registry_eq ex_Do_down_def
          json_Unmarshal_nil)
  from unread down1 down2 show ?thesis by blast
qed

text \<open>
  C10, amended. On every input the two revisions hand the same requests (method, URL,
  headers, body) to the HTTP client, in the same order. They return the same result
  whenever every URL parses, the listing call gets a response, and the body of every
  response can be read; this covers every status, and transport failures of the
  create, update and delete calls.
\<close>

theorem revisions_agree:
  "requests_of (snd (Reconcile_inline e cfg nn)) = requests_of (snd (Reconcile e cfg nn))
   \<and> ((\<forall>u. url_Parse e u = None)
        \<and> (\<forall>r resp. Do e r = Inr resp \<longrightarrow> (\<exists>b. ReadAll resp = Inr b))
        \<and> (\<exists>resp. Do e (list_request cfg) = Inr resp) \<longrightarrow>
       fst (Reconcile_inline e cfg nn) = fst (Reconcile e cfg nn))"
  using Reconcile_requests [of e cfg nn] Reconcile_outcome [of e cfg _ nn]
  by blast

theorem revisions_agree_witness:
  "fst (Reconcile_inline
          (ex_env (Found ex_secret) (ex_capi test_enc test_enc test_enc)
             (ex_Do ''500 Internal Server Error'' (Inr []))
             [ex_entry ''stale'' [''capi-to-argocd/owned'' \<mapsto> ''true''] ''b2xk''])
          (ex_cfg True False) ex_nn)
     = fst (Reconcile
          (ex_env (Found ex_secret) (ex_capi test_enc test_enc test_enc)
             (ex_Do ''500 Internal Server Error'' (Inr []))
             [ex_entry ''stale'' [''capi-to-argocd/owned'' \<mapsto> ''true''] ''b2xk''])
          (ex_cfg True False) ex_nn)
   \<and> fst (Reconcile_inline
          (ex_env NotFound (ex_capi test_enc test_enc test_enc) ex_Do_refused [])
          (ex_cfg True False) ex_nn)
     = fst (Reconcile
          (ex_env NotFound (ex_capi test_enc test_enc test_enc) ex_Do_refused [])
          (ex_cfg True False) ex_nn)
   \<and> fst (Reconcile
          (ex_env NotFound (ex_capi test_enc test_enc test_enc) ex_Do_refused [])
          (ex_cfg True False) ex_nn)
     = Return (Some (Opaque ''connection refused''))
   \<and> map Method (requests_of (snd (Reconcile_inline
          (ex_env (Found ex_secret) (ex_capi test_enc test_enc test_enc)
             (ex_Do ''500 Internal Server Error'' (Inr []))
             [ex_entry ''stale'' [''capi-to-argocd/owned'' \<mapsto> ''true''] ''b2xk''])
          (ex_cfg True False) ex_nn)))
     = [''GET'', ''PUT'']"
proof -
  let ?e = "ex_env (Found ex_secret) (ex_capi test_enc test_enc test_enc)
             (ex_Do ''500 Internal Server Error'' (Inr []))
             [ex_entry ''stale'' [''capi-to-argocd/owned'' \<mapsto> ''true''] ''b2xk'']"
  let ?r = "ex_env NotFound (ex_capi test_enc test_enc test_enc) ex_Do_refused []"
  let ?cfg = "ex_cfg True False"
  let ?stale = "ex_entry ''stale'' [''capi-to-argocd/owned'' \<mapsto> ''true''] ''b2xk''"
  let ?t = "ex_target test_enc test_enc test_enc"
  have urls: "\<forall>u. url_Parse ?e u = None" "\<forall>u. url_Parse ?r u = None" by simp_all
  have bodies: "\<forall>r resp. Do ?e r = Inr resp \<longrightarrow> (\<exists>b. ReadAll resp = Inr b)"
    "\<forall>r resp. Do ?r r = Inr resp \<longrightarrow> (\<exists>b. ReadAll resp = Inr b)"
    using ex_Do_bodies ex_Do_refused_bodies by simp_all
  have listed: "\<exists>resp. Do ?e (list_request ?cfg) = Inr resp"
    "\<exists>resp. Do ?r (list_request ?cfg) = Inr resp"
    by (simp_all add: ex_list_request_Do ex_list_request_Do_refused)
  have 1: "fst (Reconcile_inline ?e ?cfg ex_nn) = fst (Reconcile ?e ?cfg ex_nn)"
    using revisions_agree [of ?e ?cfg ex_nn] urls(1) bodies(1) listed(1) by blast
  have 2: "fst (Reconcile_inline ?r ?cfg ex_nn) = fst (Reconcile ?r ?cfg ex_nn)"
    using revisions_agree [of ?r ?cfg ex_nn] urls(2) bodies(2) listed(2) by blast
  have g: "Get ?r ex_nn = NotFound" by simp
  have on: "EnableGarbageCollection ?cfg" by (simp add: ex_cfg_def)
  have 3: "fst (Reconcile ?r ?cfg ex_nn) = Return (Some (Opaque ''connection refused''))"
    by (simp add: Reconcile_NotFound [OF ex_naming g] on gc_delete_eq ex_Do_refused_def)
  have ge: "Get ?e ex_nn = Found ex_secret" by simp
  have s: "scan [?stale] ?t (False, zero_ArgoCluster) = (True, ?stale)"
    by (simp add: ex_entry_def ex_target_def label_def)
  have d: "decide ?e ?cfg ?t \<lparr> Clusters = [?stale] \<rparr> = update_cluster ?e ?cfg ?t ?stale"
    by (simp only: decide_def ClusterList.select_convs s prod.case bool.case)
  have differs: "ClusterName ?stale \<noteq> ClusterName ?t" by (simp add: ex_entry_def ex_target_def)
  have "map Method (requests_of (snd (Reconcile ?e ?cfg ex_nn))) = [''GET'', ''PUT'']"
    using Reconcile_decide [OF ex_naming ge ex_prepare [where gc = True]] differs
    by (simp add: d requests_update_cluster_changed list_request_def)
  then have 4: "map Method (requests_of (snd (Reconcile_inline ?e ?cfg ex_nn))) = [''GET'', ''PUT'']"
    using revisions_agree [of ?e ?cfg ex_nn] by simp
  from 1 2 3 4 show ?thesis by blast
qed


end
